theory Spec2Isabelle
  imports Main "HOL-Library.Sublist"
begin

section \<open>JavaScript values, strings and objects\<close>

text \<open>
  A string is the list of the bytes of its UTF-8 form. On well-formed text, equality,
  concatenation, the replacement or test of an ASCII character and the substring test
  agree with the same operations on the UTF-16 code units that JavaScript works on;
  strings with unpaired surrogates are outside the model.

  \<open>String.prototype.toLowerCase\<close> follows the Unicode case tables and depends on context,
  so the model does not define it: the classifier and the run take it as a parameter,
  and what is proved of them holds of every such function. \<open>ascii_toLowerCase\<close> is
  what it does on strings of ASCII characters, and serves where a property is evaluated
  on such strings. \<open>toUpperCase\<close> is applied to the severity tags only, which are ASCII.
\<close>

definition upper_letters :: string where
  "upper_letters = ''ABCDEFGHIJKLMNOPQRSTUVWXYZ''"

definition lower_letters :: string where
  "lower_letters = ''abcdefghijklmnopqrstuvwxyz''"

definition lower_char :: "char \<Rightarrow> char" where
  "lower_char c = (case map_of (zip upper_letters lower_letters) c of Some d \<Rightarrow> d | None \<Rightarrow> c)"

definition upper_char :: "char \<Rightarrow> char" where
  "upper_char c = (case map_of (zip lower_letters upper_letters) c of Some d \<Rightarrow> d | None \<Rightarrow> c)"

definition ascii_toLowerCase :: "string \<Rightarrow> string" where
  "ascii_toLowerCase s = map lower_char s"

definition toUpperCase :: "string \<Rightarrow> string" where
  "toUpperCase s = map upper_char s"

text \<open>\<open>l.includes(p)\<close>: \<open>p\<close> occurs in \<open>l\<close> as a contiguous substring.\<close>

fun str_includes :: "string \<Rightarrow> string \<Rightarrow> bool" where
  "str_includes [] p = (p = [])"
| "str_includes (c # cs) p = (prefix p (c # cs) \<or> str_includes cs p)"

text \<open>
  A value as \<open>yaml.load\<close> can return it. Numbers are only ever tested for truthiness
  and with \<open>typeof\<close>, so \<open>JNum\<close> carries an integer and \<open>JNaN\<close> stands for the one
  other falsy number; a non-integer number behaves like any non-zero \<open>JNum\<close>.
  A document is a finite tree of such values. An object is the list of its own
  properties in insertion order, with distinct keys; its prototype is \<open>Object.prototype\<close>,
  and a key \<open>__proto__\<close> of a mapping is an own property like any other, as the parser
  defines it. A timestamp, which the parser returns as a \<open>Date\<close>, has none of the
  properties the code reads and behaves like the empty object.
\<close>

datatype json =
    JUndefined
  | JNull
  | JBool bool
  | JNum int
  | JNaN
  | JStr string
  | JArr "json list"
  | JObj "(string \<times> json) list"

fun truthy :: "json \<Rightarrow> bool" where
  "truthy JUndefined = False"
| "truthy JNull = False"
| "truthy (JBool b) = b"
| "truthy (JNum n) = (n \<noteq> 0)"
| "truthy JNaN = False"
| "truthy (JStr s) = (s \<noteq> [])"
| "truthy (JArr xs) = True"
| "truthy (JObj kvs) = True"

fun typeof :: "json \<Rightarrow> string" where
  "typeof JUndefined = ''undefined''"
| "typeof JNull = ''object''"
| "typeof (JBool b) = ''boolean''"
| "typeof (JNum n) = ''number''"
| "typeof JNaN = ''number''"
| "typeof (JStr s) = ''string''"
| "typeof (JArr xs) = ''object''"
| "typeof (JObj kvs) = ''object''"

text \<open>\<open>v == null\<close> (loose equality): true of \<open>null\<close> and of \<open>undefined\<close>.\<close>

fun nullish :: "json \<Rightarrow> bool" where
  "nullish JUndefined = True"
| "nullish JNull = True"
| "nullish v = False"

fun isArray :: "json \<Rightarrow> bool" where
  "isArray (JArr xs) = True"
| "isArray v = False"

subsection \<open>Property order of objects\<close>

text \<open>
  \<open>Object.entries\<close> and \<open>Object.keys\<close> enumerate the own properties of an object with
  the array-index keys first, in ascending numeric order, and then the other string keys
  in insertion order. An array index is a canonical decimal numeral below \<open>2^32 - 1\<close>.
\<close>

definition is_digit :: "char \<Rightarrow> bool" where
  "is_digit c = (let n = (of_char c :: nat) in 48 \<le> n \<and> n \<le> 57)"

definition digit_val :: "char \<Rightarrow> nat" where
  "digit_val c = of_char c - 48"

definition index_value :: "string \<Rightarrow> nat" where
  "index_value s = foldl (\<lambda>a c. 10 * a + digit_val c) 0 s"

fun is_array_index :: "string \<Rightarrow> bool" where
  "is_array_index [] = False"
| "is_array_index (c # cs) =
     (list_all is_digit (c # cs) \<and> (if c = CHR ''0'' then cs = [] else True)
      \<and> index_value (c # cs) \<le> 4294967294)"

definition Object_entries :: "(string \<times> 'v) list \<Rightarrow> (string \<times> 'v) list" where
  "Object_entries obj =
     sort_key (\<lambda>kv. index_value (fst kv)) (filter (\<lambda>kv. is_array_index (fst kv)) obj)
     @ filter (\<lambda>kv. \<not> is_array_index (fst kv)) obj"

text \<open>
  \<open>obj[k] = v\<close> for a key other than \<open>__proto__\<close>: an existing own property keeps its
  place and takes the new value, a new own property is added at the end. \<open>obj_get\<close> reads
  an own property.
\<close>

fun obj_set :: "(string \<times> 'v) list \<Rightarrow> string \<Rightarrow> 'v \<Rightarrow> (string \<times> 'v) list" where
  "obj_set [] k v = [(k, v)]"
| "obj_set ((k', v') # rest) k v =
     (if k' = k then (k, v) # rest else (k', v') # obj_set rest k v)"

definition obj_get :: "(string \<times> 'v) list \<Rightarrow> string \<Rightarrow> 'v option" where
  "obj_get obj k = map_of obj k"

subsection \<open>Objects the code builds, with their prototype\<close>

text \<open>
  An object that starts as \<open>{}\<close> and is filled by assignments has own properties and a
  prototype: \<open>Object.prototype\<close> at first, later possibly \<open>null\<close> or a value of the
  document.
\<close>

datatype prototype = Object_prototype | Null_prototype | Prototype json

record js_object =
  own :: "(string \<times> json) list"
  proto :: prototype

definition empty_object :: js_object where
  "empty_object = \<lparr>own = [], proto = Object_prototype\<rparr>"

text \<open>
  Whether an assignment to \<open>__proto__\<close> that finds no own property of that name reaches
  the setter of \<open>Object.prototype\<close>. It does through \<open>Object.prototype\<close> itself and
  through an array or an object of the document, unless that object has an own property
  \<open>__proto__\<close>, which is found first; it does not when the prototype is \<open>null\<close>.
\<close>

fun reaches_proto_setter :: "prototype \<Rightarrow> bool" where
  "reaches_proto_setter Object_prototype = True"
| "reaches_proto_setter Null_prototype = False"
| "reaches_proto_setter (Prototype (JObj kvs)) = (obj_get kvs ''__proto__'' = None)"
| "reaches_proto_setter (Prototype v) = True"

text \<open>
  The setter: an object or an array becomes the prototype, \<open>null\<close> removes the
  prototype, any other value is ignored.
\<close>

fun proto_setter :: "json \<Rightarrow> js_object \<Rightarrow> js_object" where
  "proto_setter (JObj kvs) obj = obj\<lparr>proto := Prototype (JObj kvs)\<rparr>"
| "proto_setter (JArr xs) obj = obj\<lparr>proto := Prototype (JArr xs)\<rparr>"
| "proto_setter JNull obj = obj\<lparr>proto := Null_prototype\<rparr>"
| "proto_setter v obj = obj"

text \<open>
  \<open>obj[k] = v\<close> for any key. The key \<open>__proto__\<close> goes to the setter when the object has
  no own property of that name and the setter is reached; in every other case the
  assignment sets or adds an own property.
\<close>

definition js_assign :: "js_object \<Rightarrow> string \<Rightarrow> json \<Rightarrow> js_object" where
  "js_assign obj k v =
     (if k = ''__proto__'' \<and> obj_get (own obj) k = None \<and> reaches_proto_setter (proto obj)
      then proto_setter v obj
      else obj\<lparr>own := obj_set (own obj) k v\<rparr>)"

section \<open>Shared types (types.ts)\<close>

record IssueClassification =
  track :: "string option"
  trackLabelToApply :: "string option"
  violations :: "string list"
  actions :: "string list"

section \<open>Configuration as the engine sees it (config.ts, milestoneRules.ts)\<close>

text \<open>
  Every field of \<open>TaskAssistantConfig\<close> is optional in the source; \<open>None\<close> is
  \<open>undefined\<close>. The field \<open>milestones\<close> is the one \<open>inferMilestoneTitle\<close> reads
  (declared in milestoneRules.ts), \<open>milestone_rules\<close> the one \<open>loadConfig\<close> writes.
\<close>

record SelfHealing =
  enabled :: "bool option"
  fixMissingTrack :: "bool option"
  fixMissingMilestone :: "bool option"

record Telemetry =
  tel_enabled :: "bool option"
  tel_path :: "string option"

record MilestoneRule =
  title :: string

record TaskAssistantConfig =
  tracks :: "(string \<times> string list) list option"
  milestone_rules :: "(string \<times> string) list option"
  milestones :: "(string \<times> MilestoneRule) list option"
  selfHealing :: "SelfHealing option"
  telemetry :: "Telemetry option"

section \<open>Track classifier (issueClassifier.ts)\<close>

text \<open>
  \<open>patterns.some(pattern => normalizedLabels.some(label =>
  label.includes(pattern.toLowerCase())))\<close>, with \<open>toLowerCase\<close> as the parameter
  \<open>lower\<close>.
\<close>

definition patterns_match ::
  "(string \<Rightarrow> string) \<Rightarrow> string list \<Rightarrow> string list \<Rightarrow> bool" where
  "patterns_match lower normalizedLabels patterns =
     list_ex (\<lambda>pattern. list_ex (\<lambda>label. str_includes label (lower pattern)) normalizedLabels)
       patterns"

text \<open>The loop over the entries, left at the first match by \<open>break\<close>.\<close>

fun detect_track ::
  "(string \<Rightarrow> string) \<Rightarrow> string list \<Rightarrow> (string \<times> string list) list \<Rightarrow> string option" where
  "detect_track lower normalizedLabels [] = None"
| "detect_track lower normalizedLabels ((trackName, patterns) # rest) =
     (if patterns_match lower normalizedLabels patterns then Some trackName
      else detect_track lower normalizedLabels rest)"

text \<open>\<open>config.tracks ?? {}\<close>\<close>

definition configured_tracks :: "TaskAssistantConfig \<Rightarrow> (string \<times> string list) list" where
  "configured_tracks config = (case tracks config of None \<Rightarrow> [] | Some t \<Rightarrow> t)"

text \<open>\<open>if (detectedTrack)\<close> tests truthiness: \<open>null\<close> and the empty string both fail it.\<close>

definition classifyIssue ::
  "(string \<Rightarrow> string) \<Rightarrow> TaskAssistantConfig \<Rightarrow> string list \<Rightarrow> IssueClassification" where
  "classifyIssue lower config labels =
     (let trks = configured_tracks config;
          normalizedLabels = map lower labels;
          detectedTrack = detect_track lower normalizedLabels (Object_entries trks)
      in case detectedTrack of
           None \<Rightarrow>
             \<lparr>track = None, trackLabelToApply = None,
              violations = [''no-track-matched''], actions = []\<rparr>
         | Some t \<Rightarrow>
             if t \<noteq> [] then
               \<lparr>track = Some t, trackLabelToApply = Some (''track:'' @ t),
                violations = [], actions = []\<rparr>
             else
               \<lparr>track = None, trackLabelToApply = None,
                violations = [''no-track-matched''], actions = []\<rparr>)"

section \<open>Config normalizer (config.ts)\<close>

text \<open>
  Calls of the logger are not modelled: a warning changes no value that the engine
  reads. \<open>normalizeKey\<close> replaces every hyphen by an underscore and nothing else.
\<close>

definition normalizeKey :: "string \<Rightarrow> string" where
  "normalizeKey key = map (\<lambda>c. if c = CHR ''-'' then CHR ''_'' else c) key"

text \<open>Decimal numerals, as JavaScript prints an integer in a template string or as a key.\<close>

definition digit_char :: "nat \<Rightarrow> char" where
  "digit_char d = ''0123456789'' ! d"

fun decimal :: "nat \<Rightarrow> string" where
  "decimal n = (if n < 10 then [digit_char n] else decimal (n div 10) @ [digit_char (n mod 10)])"

declare decimal.simps [simp del]

definition show_int :: "int \<Rightarrow> string" where
  "show_int i = (if i < 0 then CHR ''-'' # decimal (nat (- i)) else decimal (nat i))"

text \<open>
  \<open>Object.entries(v)\<close> for a value whose \<open>typeof\<close> is \<open>object\<close> and that is not
  \<open>null\<close>: the own properties of an object, the elements of an array under their
  indices. The code calls it on no other value.
\<close>

fun own_entries :: "json \<Rightarrow> (string \<times> json) list" where
  "own_entries (JObj kvs) = Object_entries kvs"
| "own_entries (JArr xs) = zip (map decimal [0 ..< length xs]) xs"
| "own_entries v = []"

text \<open>
  \<open>v.name\<close> for a value of the document and the names the code reads (\<open>tracks\<close>,
  \<open>enabled\<close>, \<open>path\<close>, ...): an own property of an object, \<open>undefined\<close> on an array, a
  string, a number or a boolean. The code reads a property of truthy values only, so
  the access never throws.
\<close>

fun get_prop :: "json \<Rightarrow> string \<Rightarrow> json" where
  "get_prop (JObj kvs) name = (case obj_get kvs name of Some v \<Rightarrow> v | None \<Rightarrow> JUndefined)"
| "get_prop v name = JUndefined"

text \<open>
  \<open>obj.name\<close>, for the same names, on an object the code has built: an own property,
  or else what its prototype has under that name.
\<close>

definition js_get :: "js_object \<Rightarrow> string \<Rightarrow> json" where
  "js_get obj name =
     (case obj_get (own obj) name of
        Some v \<Rightarrow> v
      | None \<Rightarrow> (case proto obj of Prototype p \<Rightarrow> get_prop p name | _ \<Rightarrow> JUndefined))"

text \<open>\<open>Array.isArray(patterns) && !patterns.some(p => typeof p !== "string")\<close>, with the strings.\<close>

fun string_items :: "json list \<Rightarrow> string list option" where
  "string_items [] = Some []"
| "string_items (JStr s # rest) = map_option ((#) s) (string_items rest)"
| "string_items (v # rest) = None"

fun string_array :: "json \<Rightarrow> string list option" where
  "string_array (JArr xs) = string_items xs"
| "string_array v = None"

text \<open>
  In both validators \<open>out\<close> starts as \<open>{}\<close>. \<open>out[track] = patterns\<close> for the track
  \<open>__proto__\<close> goes to the setter of \<open>Object.prototype\<close>, which makes the array the
  prototype of \<open>out\<close>; \<open>out[track] = title\<close> for that track goes to the setter too,
  which ignores a string. Neither adds an own property, and own properties are all that
  is read of \<open>out\<close> later.
\<close>

definition validateTracks :: "json \<Rightarrow> (string \<times> string list) list option" where
  "validateTracks trks =
     (if nullish trks then None
      else if typeof trks \<noteq> ''object'' \<or> isArray trks then None
      else Some (foldl (\<lambda>out (track, patterns).
                          case string_array patterns of
                            None \<Rightarrow> out
                          | Some ps \<Rightarrow> if track = ''__proto__'' then out else obj_set out track ps)
                   [] (own_entries trks)))"

definition validateMilestoneRules :: "json \<Rightarrow> (string \<times> string) list option" where
  "validateMilestoneRules m =
     (if nullish m then None
      else if typeof m \<noteq> ''object'' \<or> isArray m then None
      else Some (foldl (\<lambda>out (track, title).
                          case title of
                            JStr t \<Rightarrow> if track = ''__proto__'' then out else obj_set out track t
                          | _ \<Rightarrow> out)
                   [] (own_entries m)))"

text \<open>
  \<open>s.fix_missing_track ?? false\<close> is reached only when the flag is nullish or a boolean.
  A flag that is present and not a boolean is only warned about: the field stays unset.
\<close>

definition sub_flag :: "json \<Rightarrow> bool option" where
  "sub_flag v =
     (if \<not> nullish v \<and> typeof v \<noteq> ''boolean'' then None
      else (case v of JBool b \<Rightarrow> Some b | _ \<Rightarrow> Some False))"

definition validateSelfHealing :: "json \<Rightarrow> SelfHealing" where
  "validateSelfHealing s =
     (if \<not> truthy s then \<lparr>enabled = None, fixMissingTrack = None, fixMissingMilestone = None\<rparr>
      else \<lparr>enabled = (case get_prop s ''enabled'' of JBool b \<Rightarrow> Some b | _ \<Rightarrow> Some False),
            fixMissingTrack = sub_flag (get_prop s ''fix_missing_track''),
            fixMissingMilestone = sub_flag (get_prop s ''fix_missing_milestone'')\<rparr>)"

definition validateTelemetry :: "json \<Rightarrow> Telemetry" where
  "validateTelemetry t =
     (if \<not> truthy t then \<lparr>tel_enabled = Some True, tel_path = Some ''telemetry''\<rparr>
      else \<lparr>tel_enabled = (case get_prop t ''enabled'' of JBool b \<Rightarrow> Some b | _ \<Rightarrow> Some True),
            tel_path =
              (let p = get_prop t ''path'' in
               if truthy p \<and> typeof p \<noteq> ''string'' then Some ''telemetry''
               else (case p of
                       JStr str \<Rightarrow> if str \<noteq> [] then Some str else Some ''telemetry''
                     | _ \<Rightarrow> Some ''telemetry''))\<rparr>)"

text \<open>
  What the loader finds at the path: no file, a file that cannot be read or parsed
  (\<open>readFileSync\<close> or \<open>yaml.load\<close> throws, which the \<open>catch\<close> turns into \<open>{}\<close>), or a
  parsed document.
\<close>

datatype config_file = FileMissing | LoadThrows | Loaded json

definition empty_config :: TaskAssistantConfig where
  "empty_config =
     \<lparr>tracks = None, milestone_rules = None, milestones = None,
      selfHealing = None, telemetry = None\<rparr>"

text \<open>
  The loop \<open>normalized[normalizeKey(key)] = value\<close>. A key such as \<open>--proto--\<close>
  normalizes to \<open>__proto__\<close>.
\<close>

definition normalize_keys :: "json \<Rightarrow> js_object" where
  "normalize_keys doc =
     foldl (\<lambda>normalized (key, v). js_assign normalized (normalizeKey key) v)
       empty_object (own_entries doc)"

definition loadConfig :: "(string \<Rightarrow> config_file) \<Rightarrow> string \<Rightarrow> TaskAssistantConfig" where
  "loadConfig files path =
     (case files path of
        FileMissing \<Rightarrow> empty_config
      | LoadThrows \<Rightarrow> empty_config
      | Loaded doc \<Rightarrow>
          if \<not> truthy doc \<or> typeof doc \<noteq> ''object'' then empty_config
          else
            (let normalized = normalize_keys doc in
             \<lparr>tracks = validateTracks (js_get normalized ''tracks''),
              milestone_rules = validateMilestoneRules (js_get normalized ''milestone_rules''),
              milestones = None,
              selfHealing = Some (validateSelfHealing (js_get normalized ''self_healing'')),
              telemetry = Some (validateTelemetry (js_get normalized ''telemetry''))\<rparr>))"

section \<open>Milestone resolver (milestoneRules.ts)\<close>

text \<open>
  \<open>!track\<close> holds of \<open>null\<close> and of the empty string. For a track that is no own
  property of the rules but a name that \<open>Object.prototype\<close> supplies (\<open>constructor\<close>,
  \<open>__proto__\<close>, ...), \<open>rule\<close> is truthy and has no \<open>title\<close>: the result is
  \<open>undefined\<close>, which is \<open>None\<close> like \<open>null\<close>.
\<close>

definition inferMilestoneTitle :: "TaskAssistantConfig \<Rightarrow> string option \<Rightarrow> string option" where
  "inferMilestoneTitle config trk =
     (case trk of
        None \<Rightarrow> None
      | Some t \<Rightarrow>
          if t = [] then None
          else
            (let milestoneRules = (case milestones config of None \<Rightarrow> [] | Some m \<Rightarrow> m) in
             case obj_get milestoneRules t of
               None \<Rightarrow> None
             | Some rule \<Rightarrow> Some (title rule)))"

section \<open>Error taxonomy (errors.ts)\<close>

datatype TaskAssistantErrorSeverity = Fatal | Recoverable | Config | GithubApi | Rule

text \<open>The string literal that each member of the union type is.\<close>

fun severity_string :: "TaskAssistantErrorSeverity \<Rightarrow> string" where
  "severity_string Fatal = ''fatal''"
| "severity_string Recoverable = ''recoverable''"
| "severity_string Config = ''config''"
| "severity_string GithubApi = ''github-api''"
| "severity_string Rule = ''rule''"

text \<open>
  What a collaborator throws: an \<open>Error\<close> with its message and (possibly missing) stack,
  or any other value.
\<close>

datatype thrown = ErrorObj string "string option" | NotAnError json

record TaskAssistantError =
  severity :: TaskAssistantErrorSeverity
  message :: string
  cause :: "thrown option"
  details :: "(string \<times> json) list option"

definition newline :: string where
  "newline = [CHR 0x0A]"

text \<open>
  \<open>JSON.stringify(details, null, 2)\<close> is the parameter \<open>stringify\<close>. A missing stack is
  printed by the template string as \<open>undefined\<close>.
\<close>

definition toDisplay ::
  "((string \<times> json) list \<Rightarrow> string) \<Rightarrow> bool \<Rightarrow> TaskAssistantError \<Rightarrow> string" where
  "toDisplay stringify debug e =
     (let out = ''['' @ toUpperCase (severity_string (severity e)) @ ''] '' @ message e;
          out = (case details e of
                   None \<Rightarrow> out
                 | Some d \<Rightarrow> out @ newline @ ''Details: '' @ stringify d);
          out = (if debug then
                   (case cause e of
                      Some (ErrorObj m stack) \<Rightarrow>
                        out @ newline @ ''Cause: '' @ m
                            @ newline @ ''Stack: '' @ (case stack of None \<Rightarrow> ''undefined'' | Some st \<Rightarrow> st)
                    | _ \<Rightarrow> out)
                 else out)
      in out)"

definition githubApiError ::
  "string \<Rightarrow> thrown option \<Rightarrow> (string \<times> json) list option \<Rightarrow> TaskAssistantError" where
  "githubApiError msg cse dtl =
     \<lparr>severity = GithubApi, message = msg, cause = cse, details = dtl\<rparr>"

section \<open>Milestone manager (milestoneManager.ts)\<close>

record RepoRef =
  owner :: string
  repo :: string

record GhMilestone =
  ms_number :: int
  ms_title :: string

text \<open>
  A value in flight to a \<open>catch\<close>: what a collaborator threw, or an engine error.
\<close>

datatype exn = Raw thrown | Engine TaskAssistantError

text \<open>
  The remote collaborators, as functions of their arguments: \<open>Inl\<close> (or \<open>Some\<close> for a
  call without result) is what the call throws. \<open>addLabels\<close> belongs to the client
  wrapper, whose source is not part of the engine, so it may throw either kind.
\<close>

record GitHub =
  issues_listMilestones :: "string \<Rightarrow> string \<Rightarrow> thrown + GhMilestone list"
  issues_createMilestone :: "string \<Rightarrow> string \<Rightarrow> string \<Rightarrow> thrown + int"
  issues_update :: "string \<Rightarrow> string \<Rightarrow> int \<Rightarrow> int \<Rightarrow> thrown option"
  addLabels :: "string \<Rightarrow> string \<Rightarrow> int \<Rightarrow> string list \<Rightarrow> exn option"

text \<open>The remote calls a run issues, in order, with their arguments.\<close>

datatype call =
    AddLabels string string int "string list"
  | ListMilestones string string
  | CreateMilestone string string string
  | UpdateIssue string string int int

fun call_failed :: "GitHub \<Rightarrow> call \<Rightarrow> bool" where
  "call_failed gh (AddLabels ow rp n ls) = (addLabels gh ow rp n ls \<noteq> None)"
| "call_failed gh (ListMilestones ow rp) = isl (issues_listMilestones gh ow rp)"
| "call_failed gh (CreateMilestone ow rp t) = isl (issues_createMilestone gh ow rp t)"
| "call_failed gh (UpdateIssue ow rp n m) = (issues_update gh ow rp n m \<noteq> None)"

definition quote :: string where
  "quote = [CHR 0x27]"

definition listMilestones ::
  "GitHub \<Rightarrow> RepoRef \<Rightarrow> (TaskAssistantError + GhMilestone list) \<times> call list" where
  "listMilestones gh ref =
     (case issues_listMilestones gh (owner ref) (repo ref) of
        Inr data \<Rightarrow> (Inr data, [ListMilestones (owner ref) (repo ref)])
      | Inl err \<Rightarrow>
          (Inl (githubApiError
                  (''Failed to list milestones for '' @ owner ref @ ''/'' @ repo ref)
                  (Some err) None),
           [ListMilestones (owner ref) (repo ref)]))"

text \<open>The loop of \<open>findMilestoneByTitle\<close>: the first milestone with exactly that title.\<close>

fun first_with_title :: "GhMilestone list \<Rightarrow> string \<Rightarrow> int option" where
  "first_with_title [] t = None"
| "first_with_title (m # ms) t = (if ms_title m = t then Some (ms_number m) else first_with_title ms t)"

definition findMilestoneByTitle ::
  "GitHub \<Rightarrow> RepoRef \<Rightarrow> string \<Rightarrow> (TaskAssistantError + int option) \<times> call list" where
  "findMilestoneByTitle gh ref t =
     (case listMilestones gh ref of
        (Inl e, cs) \<Rightarrow> (Inl e, cs)
      | (Inr ms, cs) \<Rightarrow> (Inr (first_with_title ms t), cs))"

definition ensureMilestone ::
  "GitHub \<Rightarrow> RepoRef \<Rightarrow> string \<Rightarrow> (TaskAssistantError + int) \<times> call list" where
  "ensureMilestone gh ref t =
     (case findMilestoneByTitle gh ref t of
        (Inl e, cs) \<Rightarrow> (Inl e, cs)
      | (Inr (Some existing), cs) \<Rightarrow> (Inr existing, cs)
      | (Inr None, cs) \<Rightarrow>
          (case issues_createMilestone gh (owner ref) (repo ref) t of
             Inr n \<Rightarrow> (Inr n, cs @ [CreateMilestone (owner ref) (repo ref) t])
           | Inl err \<Rightarrow>
               (Inl (githubApiError
                       (''Failed to create milestone '' @ quote @ t @ quote) (Some err) None),
                cs @ [CreateMilestone (owner ref) (repo ref) t])))"

definition attachMilestoneToIssue ::
  "GitHub \<Rightarrow> RepoRef \<Rightarrow> int \<Rightarrow> int \<Rightarrow> (TaskAssistantError + unit) \<times> call list" where
  "attachMilestoneToIssue gh ref issueNumber milestoneNumber =
     (case issues_update gh (owner ref) (repo ref) issueNumber milestoneNumber of
        None \<Rightarrow> (Inr (), [UpdateIssue (owner ref) (repo ref) issueNumber milestoneNumber])
      | Some err \<Rightarrow>
          (Inl (githubApiError
                  (''Failed to attach milestone #'' @ show_int milestoneNumber
                     @ '' to issue #'' @ show_int issueNumber)
                  (Some err) None),
           [UpdateIssue (owner ref) (repo ref) issueNumber milestoneNumber]))"

text \<open>
  What reaches the caller when the remote call \<open>k\<close> fails: what \<open>addLabels\<close> threw,
  or the engine error in which the manager wraps what the client threw.
\<close>

fun raised_by :: "GitHub \<Rightarrow> call \<Rightarrow> exn option" where
  "raised_by gh (AddLabels ow rp n ls) = addLabels gh ow rp n ls"
| "raised_by gh (ListMilestones ow rp) =
     (case issues_listMilestones gh ow rp of
        Inr ms \<Rightarrow> None
      | Inl err \<Rightarrow>
          Some (Engine (githubApiError (''Failed to list milestones for '' @ ow @ ''/'' @ rp)
                          (Some err) None)))"
| "raised_by gh (CreateMilestone ow rp t) =
     (case issues_createMilestone gh ow rp t of
        Inr n \<Rightarrow> None
      | Inl err \<Rightarrow>
          Some (Engine (githubApiError (''Failed to create milestone '' @ quote @ t @ quote)
                          (Some err) None)))"
| "raised_by gh (UpdateIssue ow rp n m) =
     (case issues_update gh ow rp n m of
        None \<Rightarrow> None
      | Some err \<Rightarrow>
          Some (Engine (githubApiError
                          (''Failed to attach milestone #'' @ show_int m @ '' to issue #'' @ show_int n)
                          (Some err) None)))"

text \<open>
  A trace of remote calls that ends in the failure that raised \<open>e\<close>: every call but the
  last succeeded, the last one failed and raised \<open>e\<close>.
\<close>

definition ends_in_failure :: "GitHub \<Rightarrow> call list \<Rightarrow> exn \<Rightarrow> bool" where
  "ends_in_failure gh cs e =
     (\<exists>cs' k. cs = cs' @ [k] \<and> list_all (\<lambda>c. \<not> call_failed gh c) cs'
              \<and> call_failed gh k \<and> raised_by gh k = Some e)"

section \<open>The run (index.ts)\<close>

text \<open>
  A label of the event payload is a string or an object with a \<open>name\<close>, which is taken
  to be a string.
\<close>

datatype issue_label = LabelString string | LabelObject string

fun label_name :: "issue_label \<Rightarrow> string" where
  "label_name (LabelString l) = l"
| "label_name (LabelObject n) = n"

text \<open>
  The issue of the event payload. \<open>issue_milestone\<close> is \<open>issue.milestone?.title ?? null\<close>;
  \<open>issue_labels\<close> is \<open>issue.labels || []\<close>.
\<close>

record Issue =
  issue_id :: int
  issue_number :: int
  issue_title :: string
  issue_state :: string
  issue_labels :: "issue_label list"
  issue_milestone :: "string option"
  created_at :: string
  updated_at :: string

record Context =
  payload_issue :: "Issue option"
  ctx_repo :: RepoRef

record TelemetryIssueInfo =
  ti_id :: int
  ti_number :: int
  ti_title :: string
  ti_state :: string
  ti_labels :: "string list"
  ti_milestone :: "string option"
  ti_created_at :: string
  ti_updated_at :: string

record TelemetryPayload =
  version :: int
  event :: string
  generated_at :: string
  repository :: RepoRef
  issue :: TelemetryIssueInfo
  classification :: IssueClassification
  payload_actions :: "string list"

record OrchestratorResult =
  res_track :: "string option"
  res_actions :: "string list"
  res_milestone :: "string option"
  res_telemetryFile :: "string option"

text \<open>
  What the run takes from the process around it: the \<open>toLowerCase\<close> of the runtime,
  the \<open>config-path\<close> input, the files, the telemetry switch of the environment, the
  clock, and the persistence collaborator \<open>writeTelemetry\<close>, which returns the written
  path (or nothing) or throws.
\<close>

record Harness =
  String_toLowerCase :: "string \<Rightarrow> string"
  input_config_path :: string
  files :: "string \<Rightarrow> config_file"
  env_TELEMETRY_ENABLED :: bool
  now_iso :: string
  writeTelemetry :: "int \<Rightarrow> TelemetryPayload \<Rightarrow> exn + string option"

text \<open>
  How a run ends: without an issue in the payload, with the result handed to
  \<open>setOutput\<close>, or in the \<open>catch\<close> with the message handed to \<open>setFailed\<close> and exit
  code 1.
\<close>

datatype outcome = NoIssue | Completed OrchestratorResult | Failed string

record RunReport =
  outcome :: outcome
  calls :: "call list"
  telemetry_calls :: "(int \<times> TelemetryPayload) list"

definition cross_mark :: string where
  "cross_mark = [CHR 0xE2, CHR 0x9D, CHR 0x8C]"

fun failure_message :: "exn \<Rightarrow> string" where
  "failure_message (Raw (ErrorObj m stack)) = cross_mark @ '' Orchestrator error: '' @ m"
| "failure_message (Engine e) = cross_mark @ '' Orchestrator error: '' @ message e"
| "failure_message (Raw (NotAnError v)) = cross_mark @ '' Orchestrator error: unknown error''"

text \<open>
  Step 2a of \<open>run\<close>: the track label. \<open>selfHealing.enabled\<close> and the other conditions are
  tested for truthiness.
\<close>

definition fix_track_label ::
  "GitHub \<Rightarrow> RepoRef \<Rightarrow> Issue \<Rightarrow> SelfHealing \<Rightarrow> IssueClassification
     \<Rightarrow> (exn + IssueClassification) \<times> call list" where
  "fix_track_label gh ref iss sh c =
     (case trackLabelToApply c of
        Some label \<Rightarrow>
          if enabled sh = Some True \<and> fixMissingTrack sh = Some True \<and> label \<noteq> [] then
            (case addLabels gh (owner ref) (repo ref) (issue_number iss) [label] of
               Some err \<Rightarrow> (Inl err, [AddLabels (owner ref) (repo ref) (issue_number iss) [label]])
             | None \<Rightarrow>
                 (Inr (c\<lparr>actions := actions c @ [''apply-track-label:'' @ label]\<rparr>),
                  [AddLabels (owner ref) (repo ref) (issue_number iss) [label]]))
          else (Inr c, [])
      | None \<Rightarrow> (Inr c, []))"

text \<open>Step 2b of \<open>run\<close>: the milestone. The result carries \<open>finalMilestoneTitle\<close>.\<close>

definition enforce_milestone ::
  "GitHub \<Rightarrow> TaskAssistantConfig \<Rightarrow> RepoRef \<Rightarrow> Issue \<Rightarrow> SelfHealing \<Rightarrow> IssueClassification
     \<Rightarrow> (exn + IssueClassification \<times> string option) \<times> call list" where
  "enforce_milestone gh config ref iss sh c =
     (let finalMilestoneTitle = issue_milestone iss in
      if enabled sh = Some True \<and> fixMissingMilestone sh = Some True then
        (case inferMilestoneTitle config (track c) of
           None \<Rightarrow> (Inr (c, finalMilestoneTitle), [])
         | Some desiredMilestoneTitle \<Rightarrow>
             if desiredMilestoneTitle \<noteq> [] \<and> Some desiredMilestoneTitle \<noteq> finalMilestoneTitle then
               (case ensureMilestone gh ref desiredMilestoneTitle of
                  (Inl e, cs) \<Rightarrow> (Inl (Engine e), cs)
                | (Inr milestoneNumber, cs) \<Rightarrow>
                    (case attachMilestoneToIssue gh ref (issue_number iss) milestoneNumber of
                       (Inl e, cs') \<Rightarrow> (Inl (Engine e), cs @ cs')
                     | (Inr u, cs') \<Rightarrow>
                         (Inr (c\<lparr>actions := actions c @ [''set-milestone:'' @ desiredMilestoneTitle]\<rparr>,
                               Some desiredMilestoneTitle),
                          cs @ cs')))
             else (Inr (c, finalMilestoneTitle), []))
      else (Inr (c, finalMilestoneTitle), []))"

text \<open>
  Step 2 of \<open>run\<close> as a whole (the self-healing orchestration): 2a, then 2b. A throw in
  2a leaves 2b out.
\<close>

definition self_healing_steps ::
  "GitHub \<Rightarrow> TaskAssistantConfig \<Rightarrow> RepoRef \<Rightarrow> Issue \<Rightarrow> IssueClassification
     \<Rightarrow> (exn + IssueClassification \<times> string option) \<times> call list" where
  "self_healing_steps gh config ref iss c =
     (let sh = (case selfHealing config of
                  None \<Rightarrow> \<lparr>enabled = Some False, fixMissingTrack = Some False,
                            fixMissingMilestone = Some False\<rparr>
                | Some s \<Rightarrow> s)
      in case fix_track_label gh ref iss sh c of
           (Inl e, cs) \<Rightarrow> (Inl e, cs)
         | (Inr c1, cs) \<Rightarrow>
             (case enforce_milestone gh config ref iss sh c1 of
                (r, cs') \<Rightarrow> (r, cs @ cs')))"

text \<open>Step 3 of \<open>run\<close>: \<open>(config.telemetry?.enabled ?? true) && env\<close>.\<close>

definition telemetryEnabled :: "Harness \<Rightarrow> TaskAssistantConfig \<Rightarrow> bool" where
  "telemetryEnabled H config =
     ((case telemetry config of
         None \<Rightarrow> True
       | Some t \<Rightarrow> (case tel_enabled t of None \<Rightarrow> True | Some b \<Rightarrow> b))
      \<and> env_TELEMETRY_ENABLED H)"

definition build_payload ::
  "Harness \<Rightarrow> RepoRef \<Rightarrow> Issue \<Rightarrow> string list \<Rightarrow> IssueClassification \<Rightarrow> string option
     \<Rightarrow> TelemetryPayload" where
  "build_payload H ref iss labels c finalMilestoneTitle =
     \<lparr>version = 1, event = ''issue_event'', generated_at = now_iso H,
      repository = \<lparr>owner = owner ref, repo = repo ref\<rparr>,
      issue = \<lparr>ti_id = issue_id iss, ti_number = issue_number iss, ti_title = issue_title iss,
               ti_state = issue_state iss, ti_labels = labels,
               ti_milestone = finalMilestoneTitle,
               ti_created_at = created_at iss, ti_updated_at = updated_at iss\<rparr>,
      classification = c, payload_actions = actions c\<rparr>"

text \<open>
  The body of \<open>run\<close> after the configuration is loaded. Everything sits in one
  \<open>try\<close>: a throw of any step goes to the \<open>catch\<close>, past the steps after it.
\<close>

definition run_with_config ::
  "Harness \<Rightarrow> GitHub \<Rightarrow> TaskAssistantConfig \<Rightarrow> Context \<Rightarrow> RunReport" where
  "run_with_config H gh config ctx =
     (case payload_issue ctx of
        None \<Rightarrow> \<lparr>outcome = NoIssue, calls = [], telemetry_calls = []\<rparr>
      | Some iss \<Rightarrow>
          (let ref = ctx_repo ctx;
               labels = map label_name (issue_labels iss);
               c0 = classifyIssue (String_toLowerCase H) config labels
           in case self_healing_steps gh config ref iss c0 of
                (Inl e, cs) \<Rightarrow>
                  \<lparr>outcome = Failed (failure_message e), calls = cs, telemetry_calls = []\<rparr>
              | (Inr (c, finalMilestoneTitle), cs) \<Rightarrow>
                  if telemetryEnabled H config then
                    (let payload = build_payload H ref iss labels c finalMilestoneTitle in
                     case writeTelemetry H (issue_number iss) payload of
                       Inl e \<Rightarrow>
                         \<lparr>outcome = Failed (failure_message e), calls = cs,
                          telemetry_calls = [(issue_number iss, payload)]\<rparr>
                     | Inr writtenPath \<Rightarrow>
                         \<lparr>outcome = Completed
                            \<lparr>res_track = track c, res_actions = actions c,
                             res_milestone = finalMilestoneTitle,
                             res_telemetryFile =
                               (case writtenPath of
                                  None \<Rightarrow> None
                                | Some p \<Rightarrow> if p \<noteq> [] then Some p else None)\<rparr>,
                          calls = cs, telemetry_calls = [(issue_number iss, payload)]\<rparr>)
                  else
                    \<lparr>outcome = Completed
                       \<lparr>res_track = track c, res_actions = actions c,
                        res_milestone = finalMilestoneTitle, res_telemetryFile = None\<rparr>,
                     calls = cs, telemetry_calls = []\<rparr>))"

definition run :: "Harness \<Rightarrow> GitHub \<Rightarrow> Context \<Rightarrow> RunReport" where
  "run H gh ctx =
     (let configPath = (if input_config_path H \<noteq> [] then input_config_path H
                        else ''.github/orchestrator.yml'');
          config = loadConfig (files H) configPath
      in run_with_config H gh config ctx)"

section \<open>Concrete collaborators and inputs\<close>

text \<open>A repository, an issue without milestone, and remote collaborators that all succeed.\<close>

definition acme :: RepoRef where
  "acme = \<lparr>owner = ''acme'', repo = ''widgets''\<rparr>"

definition issue42 :: Issue where
  "issue42 =
     \<lparr>issue_id = 9001, issue_number = 42, issue_title = ''Crash on save'', issue_state = ''open'',
      issue_labels = [LabelObject ''needs-triage'', LabelObject ''Bug''],
      issue_milestone = None,
      created_at = ''2024-05-01T10:00:00Z'', updated_at = ''2024-05-02T08:30:00Z''\<rparr>"

definition issue_event :: Context where
  "issue_event = \<lparr>payload_issue = Some issue42, ctx_repo = acme\<rparr>"

definition open_milestones :: "GhMilestone list" where
  "open_milestones =
     [\<lparr>ms_number = 3, ms_title = ''Backlog''\<rparr>,
      \<lparr>ms_number = 7, ms_title = ''Bugfix Sprint''\<rparr>,
      \<lparr>ms_number = 9, ms_title = ''Bugfix Sprint''\<rparr>]"

definition github_ok :: GitHub where
  "github_ok =
     \<lparr>issues_listMilestones = (\<lambda>ow rp. Inr open_milestones),
      issues_createMilestone = (\<lambda>ow rp t. Inr 12),
      issues_update = (\<lambda>ow rp n m. None),
      addLabels = (\<lambda>ow rp n ls. None)\<rparr>"

definition outage :: thrown where
  "outage = ErrorObj ''503 Service Unavailable'' (Some ''at request (client.js:88)'')"

text \<open>
  The process around a run whose configuration file holds the document \<open>doc\<close>. Its
  \<open>toLowerCase\<close> is the one for ASCII strings: the labels and patterns of the scenarios
  are ASCII.
\<close>

definition harness_with :: "json \<Rightarrow> Harness" where
  "harness_with doc =
     \<lparr>String_toLowerCase = ascii_toLowerCase,
      input_config_path = [],
      files = (\<lambda>p. if p = ''.github/orchestrator.yml'' then Loaded doc else FileMissing),
      env_TELEMETRY_ENABLED = True,
      now_iso = ''2024-05-02T08:31:00.000Z'',
      writeTelemetry = (\<lambda>n p. Inr (Some ''telemetry/42.json''))\<rparr>"

text \<open>
  A configuration in which self-healing is on and \<open>milestones\<close>, the field the resolver
  reads, has a rule for the track \<open>bug\<close>.
\<close>

definition healing_config :: TaskAssistantConfig where
  "healing_config =
     \<lparr>tracks = Some [(''bug'', [''bug''])],
      milestone_rules = None,
      milestones = Some [(''bug'', \<lparr>title = ''Bugfix Sprint''\<rparr>)],
      selfHealing = Some \<lparr>enabled = Some True, fixMissingTrack = Some True,
                          fixMissingMilestone = Some True\<rparr>,
      telemetry = Some \<lparr>tel_enabled = Some True, tel_path = Some ''telemetry''\<rparr>\<rparr>"

text \<open>The configuration document of scenario A, with the keys as the scenario writes them.\<close>

definition scenario_A_doc :: json where
  "scenario_A_doc =
     JObj [(''tracks'', JObj [(''bug'', JArr [JStr ''bug''])]),
           (''milestoneRules'', JObj [(''bug'', JStr ''Bugfix Sprint'')]),
           (''selfHealing'', JObj [(''enabled'', JBool True), (''fixMissingTrack'', JBool True),
                                  (''fixMissingMilestone'', JBool True)])]"

text \<open>The same document with the keys that \<open>loadConfig\<close> and \<open>validateSelfHealing\<close> read.\<close>

definition scenario_A_snake_doc :: json where
  "scenario_A_snake_doc =
     JObj [(''tracks'', JObj [(''bug'', JArr [JStr ''bug''])]),
           (''milestone_rules'', JObj [(''bug'', JStr ''Bugfix Sprint'')]),
           (''self-healing'', JObj [(''enabled'', JBool True), (''fix_missing_track'', JBool True),
                                   (''fix_missing_milestone'', JBool True)])]"

section \<open>Properties of the classifier\<close>

lemmas case_mapping_defs =
  ascii_toLowerCase_def toUpperCase_def lower_char_def upper_char_def upper_letters_def lower_letters_def

lemma str_includes_iff_sublist: "str_includes l p \<longleftrightarrow> sublist p l"
  by (induction l) (auto simp: sublist_Cons_right)

lemma patterns_match_Nil [simp]: "patterns_match lower ls [] = False"
  by (simp add: patterns_match_def)

lemma patterns_match_no_labels [simp]: "patterns_match lower [] ps = False"
  by (induction ps) (simp_all add: patterns_match_def)

lemma detect_track_no_labels [simp]: "detect_track lower [] ts = None"
  by (induction ts) auto

lemma Object_entries_Nil [simp]: "Object_entries [] = []"
  by (simp add: Object_entries_def)

lemma set_Object_entries [simp]: "set (Object_entries obj) = set obj"
  by (auto simp: Object_entries_def)

text \<open>Where no key is an array index, the enumeration order is the insertion order.\<close>

lemma Object_entries_insertion_order:
  assumes "\<forall>kv \<in> set obj. \<not> is_array_index (fst kv)"
  shows "Object_entries obj = obj"
  using assms by (simp add: Object_entries_def filter_empty_conv [THEN iffD2] cong: filter_cong)

text \<open>
  The match test of the code, on the lower-cased labels, is the substring test between
  the lower-case forms.
\<close>

lemma patterns_match_iff:
  "patterns_match lower (map lower labels) ps \<longleftrightarrow>
     (\<exists>p \<in> set ps. \<exists>l \<in> set labels. sublist (lower p) (lower l))"
  by (auto simp: patterns_match_def list_ex_iff str_includes_iff_sublist)

lemma detect_track_sound:
  "detect_track lower ls ts = Some T \<Longrightarrow> \<exists>ps. (T, ps) \<in> set ts \<and> patterns_match lower ls ps"
  by (induction ts) (auto split: if_splits)

lemma detect_track_first:
  assumes "\<forall>(n, qs) \<in> set pre. \<not> patterns_match lower ls qs" and "patterns_match lower ls ps"
  shows "detect_track lower ls (pre @ (T, ps) # post) = Some T"
  using assms by (induction pre) auto

text \<open>
  C7. With an absent or empty \<open>tracks\<close> mapping, whatever the labels, the classification
  has no track, has \<open>no-track-matched\<close> among its violations, and has no track label to
  apply.
\<close>

theorem classify_no_tracks:
  assumes "tracks config = None \<or> tracks config = Some []"
  shows "track (classifyIssue lower config labels) = None
       \<and> ''no-track-matched'' \<in> set (violations (classifyIssue lower config labels))
       \<and> trackLabelToApply (classifyIssue lower config labels) = None"
  using assms by (auto simp: classifyIssue_def configured_tracks_def)

theorem classify_no_tracks_witness:
  "track (classifyIssue ascii_toLowerCase empty_config [''bug'', ''Feature'']) = None
   \<and> ''no-track-matched'' \<in> set (violations (classifyIssue ascii_toLowerCase empty_config [''bug'', ''Feature'']))
   \<and> trackLabelToApply (classifyIssue ascii_toLowerCase empty_config [''bug'', ''Feature'']) = None
   \<and> track (classifyIssue ascii_toLowerCase (empty_config\<lparr>tracks := Some []\<rparr>) [''bug'']) = None
   \<and> ''no-track-matched'' \<in> set (violations (classifyIssue ascii_toLowerCase (empty_config\<lparr>tracks := Some []\<rparr>) [''bug'']))
   \<and> trackLabelToApply (classifyIssue ascii_toLowerCase (empty_config\<lparr>tracks := Some []\<rparr>) [''bug'']) = None"
  using classify_no_tracks [where config = empty_config and lower = ascii_toLowerCase
                             and labels = "[''bug'', ''Feature'']"]
        classify_no_tracks [where config = "empty_config\<lparr>tracks := Some []\<rparr>"
                             and lower = ascii_toLowerCase and labels = "[''bug'']"]
  by (simp add: empty_config_def)

text \<open>
  C10. Every classification the classifier returns has an empty action list, has a track
  label to apply exactly when it has a track, and has the violations
  \<open>[no-track-matched]\<close> when it has no track and none otherwise. A track is returned only
  if one of its entries has a non-empty pattern list that matches, an empty pattern list
  matches nothing, and an empty label list gives no track, whatever the patterns are.
\<close>

theorem classification_shape:
  "actions (classifyIssue lower config labels) = []
   \<and> (trackLabelToApply (classifyIssue lower config labels) \<noteq> None
        \<longleftrightarrow> track (classifyIssue lower config labels) \<noteq> None)
   \<and> violations (classifyIssue lower config labels) =
        (if track (classifyIssue lower config labels) = None then [''no-track-matched''] else [])
   \<and> (\<forall>T. track (classifyIssue lower config labels) = Some T \<longrightarrow>
         (\<exists>ps. (T, ps) \<in> set (configured_tracks config) \<and> ps \<noteq> []
               \<and> patterns_match lower (map lower labels) ps))
   \<and> \<not> patterns_match lower (map lower labels) []
   \<and> track (classifyIssue lower config []) = None"
proof -
  have shape: "actions (classifyIssue lower config labels) = []
      \<and> (trackLabelToApply (classifyIssue lower config labels) \<noteq> None
            \<longleftrightarrow> track (classifyIssue lower config labels) \<noteq> None)
      \<and> violations (classifyIssue lower config labels) =
            (if track (classifyIssue lower config labels) = None then [''no-track-matched''] else [])"
    by (simp add: classifyIssue_def Let_def split: option.splits)
  have sel: "\<exists>ps. (T, ps) \<in> set (configured_tracks config) \<and> ps \<noteq> []
               \<and> patterns_match lower (map lower labels) ps"
    if "track (classifyIssue lower config labels) = Some T" for T
  proof -
    from that
    have "detect_track lower (map lower labels) (Object_entries (configured_tracks config)) = Some T"
      by (simp add: classifyIssue_def Let_def split: option.splits if_splits)
    then obtain ps where "(T, ps) \<in> set (configured_tracks config)"
        and m: "patterns_match lower (map lower labels) ps"
      using detect_track_sound by fastforce
    moreover from m have "ps \<noteq> []" by auto
    ultimately show ?thesis by blast
  qed
  have empty: "track (classifyIssue lower config []) = None"
    by (simp add: classifyIssue_def)
  from shape sel empty show ?thesis by simp
qed

theorem classification_shape_witness:
  "actions (classifyIssue ascii_toLowerCase (empty_config\<lparr>tracks := Some [(''docs'', []), (''bug'', [[]])]\<rparr>) [''Bug'']) = []
   \<and> track (classifyIssue ascii_toLowerCase (empty_config\<lparr>tracks := Some [(''docs'', []), (''bug'', [[]])]\<rparr>) [''Bug''])
       = Some ''bug''
   \<and> trackLabelToApply (classifyIssue ascii_toLowerCase (empty_config\<lparr>tracks := Some [(''docs'', []), (''bug'', [[]])]\<rparr>) [''Bug''])
       \<noteq> None
   \<and> violations (classifyIssue ascii_toLowerCase (empty_config\<lparr>tracks := Some [(''docs'', []), (''bug'', [[]])]\<rparr>) [''Bug''])
       = []
   \<and> (\<exists>ps. (''bug'', ps) \<in> set [(''docs'', []), (''bug'', [[]])] \<and> ps \<noteq> []
           \<and> patterns_match ascii_toLowerCase (map ascii_toLowerCase [''Bug'']) ps)
   \<and> track (classifyIssue ascii_toLowerCase (empty_config\<lparr>tracks := Some [(''docs'', []), (''bug'', [[]])]\<rparr>) []) = None"
proof -
  let ?cfg = "empty_config\<lparr>tracks := Some [(''docs'', []), (''bug'', [[]])]\<rparr>"
  have t: "track (classifyIssue ascii_toLowerCase ?cfg [''Bug'']) = Some ''bug''"
    by (simp add: classifyIssue_def configured_tracks_def empty_config_def Object_entries_def
          is_digit_def patterns_match_def case_mapping_defs)
  have cfg: "configured_tracks ?cfg = [(''docs'', []), (''bug'', [[]])]"
    by (simp add: configured_tracks_def empty_config_def)
  from classification_shape [where lower = ascii_toLowerCase and config = ?cfg
        and labels = "[''Bug'']"] t cfg show ?thesis
    by simp
qed

text \<open>
  C4, as the code has it. The tracks are visited in the order in which \<open>Object.entries\<close>
  enumerates them. If \<open>T\<close> is the first track in that order one of whose patterns is a
  case-insensitive substring of one of the labels, and \<open>T\<close> is not the empty string, the
  classification returns the track \<open>T\<close> and the label \<open>track:T\<close>, whatever tracks
  come after it. A pattern is a case-insensitive substring of a label when its lower-case
  form is a substring of the lower-case form of the label; \<open>lower\<close> is the
  \<open>toLowerCase\<close> of the runtime, of which nothing is assumed.
\<close>

theorem classify_first_match:
  assumes order: "Object_entries (configured_tracks config) = pre @ (T, ps) # post"
      and earlier: "\<forall>(n, qs) \<in> set pre. \<forall>q \<in> set qs. \<forall>l \<in> set labels.
                      \<not> sublist (lower q) (lower l)"
      and p: "p \<in> set ps" and l: "l \<in> set labels"
      and sub: "sublist (lower p) (lower l)"
      and nonempty: "T \<noteq> []"
  shows "track (classifyIssue lower config labels) = Some T
       \<and> trackLabelToApply (classifyIssue lower config labels) = Some (''track:'' @ T)"
proof -
  have "\<forall>(n, qs) \<in> set pre. \<not> patterns_match lower (map lower labels) qs"
    using earlier by (auto simp: patterns_match_iff)
  moreover have "patterns_match lower (map lower labels) ps"
    using p l sub by (auto simp: patterns_match_iff)
  ultimately have "detect_track lower (map lower labels) (pre @ (T, ps) # post) = Some T"
    by (rule detect_track_first)
  with order nonempty show ?thesis
    by (simp add: classifyIssue_def)
qed

theorem classify_first_match_witness:
  "track (classifyIssue ascii_toLowerCase
      (empty_config\<lparr>tracks := Some [(''feature'', [''enhancement'']), (''bug'', [''defect'', ''BUG'']),
                                     (''chore'', [''bug''])]\<rparr>)
      [''needs-triage'', ''Bug'']) = Some ''bug''
   \<and> trackLabelToApply (classifyIssue ascii_toLowerCase
      (empty_config\<lparr>tracks := Some [(''feature'', [''enhancement'']), (''bug'', [''defect'', ''BUG'']),
                                     (''chore'', [''bug''])]\<rparr>)
      [''needs-triage'', ''Bug'']) = Some ''track:bug''"
proof -
  let ?cfg = "empty_config\<lparr>tracks := Some [(''feature'', [''enhancement'']),
                (''bug'', [''defect'', ''BUG'']), (''chore'', [''bug''])]\<rparr>"
  let ?labels = "[''needs-triage'', ''Bug'']"
  have order: "Object_entries (configured_tracks ?cfg)
               = [(''feature'', [''enhancement''])] @ (''bug'', [''defect'', ''BUG'']) # [(''chore'', [''bug''])]"
    by (simp add: Object_entries_def configured_tracks_def empty_config_def is_digit_def)
  have earlier: "\<forall>(n, qs) \<in> set [(''feature'', [''enhancement''])]. \<forall>q \<in> set qs. \<forall>l \<in> set ?labels.
                      \<not> sublist (ascii_toLowerCase q) (ascii_toLowerCase l)"
    by (simp add: str_includes_iff_sublist [symmetric] case_mapping_defs)
  have p: "''BUG'' \<in> set [''defect'', ''BUG'']" and l: "''Bug'' \<in> set ?labels"
    by simp_all
  have sub: "sublist (ascii_toLowerCase ''BUG'') (ascii_toLowerCase ''Bug'')"
    by (simp add: str_includes_iff_sublist [symmetric] case_mapping_defs)
  have ne: "''bug'' \<noteq> []"
    by simp
  from classify_first_match [OF order earlier p l sub ne] show ?thesis
    by simp
qed

text \<open>
  C4 as it is stated fails twice. A track named by an array index is enumerated before
  the tracks declared ahead of it: with \<open>b\<close> declared first and \<open>1\<close> second, both
  matching, the later-declared \<open>1\<close> is returned. And a first track whose name is the
  empty string matches but is not returned.
\<close>

theorem classify_declaration_order_counterexample:
  "str_includes (ascii_toLowerCase ''x'') (ascii_toLowerCase ''x'')
   \<and> track (classifyIssue ascii_toLowerCase (empty_config\<lparr>tracks := Some [(''b'', [''x'']), (''1'', [''x''])]\<rparr>) [''x''])
       = Some ''1''
   \<and> track (classifyIssue ascii_toLowerCase (empty_config\<lparr>tracks := Some [([], [''x''])]\<rparr>) [''x'']) = None"
  by (simp add: classifyIssue_def configured_tracks_def empty_config_def Object_entries_def
        is_digit_def index_value_def digit_val_def patterns_match_def case_mapping_defs)

section \<open>Properties of the milestone manager\<close>

lemma first_with_title_None:
  "first_with_title ms t = None \<longleftrightarrow> (\<forall>m \<in> set ms. ms_title m \<noteq> t)"
  by (induction ms) auto

lemma first_with_title_split:
  "\<exists>m \<in> set ms. ms_title m = t \<Longrightarrow>
     \<exists>pre m post. ms = pre @ m # post \<and> (\<forall>x \<in> set pre. ms_title x \<noteq> t) \<and> ms_title m = t
        \<and> first_with_title ms t = Some (ms_number m)"
proof (induction ms)
  case Nil
  then show ?case by simp
next
  case (Cons a ms)
  show ?case
  proof (cases "ms_title a = t")
    case True
    then have "a # ms = [] @ a # ms \<and> (\<forall>x \<in> set []. ms_title x \<noteq> t) \<and> ms_title a = t
        \<and> first_with_title (a # ms) t = Some (ms_number a)"
      by simp
    then show ?thesis by blast
  next
    case False
    with Cons.prems have "\<exists>m \<in> set ms. ms_title m = t"
      by auto
    from Cons.IH [OF this] obtain pre m post where
      "ms = pre @ m # post" "\<forall>x \<in> set pre. ms_title x \<noteq> t" "ms_title m = t"
      "first_with_title ms t = Some (ms_number m)"
      by blast
    with False have "a # ms = (a # pre) @ m # post
        \<and> (\<forall>x \<in> set (a # pre). ms_title x \<noteq> t) \<and> ms_title m = t
        \<and> first_with_title (a # ms) t = Some (ms_number m)"
      by simp
    then show ?thesis by blast
  qed
qed

text \<open>
  C6. If the lookup returns open milestones among which one has exactly the desired
  title, \<open>ensureMilestone\<close> returns the number of the first such milestone and its only
  remote call is the lookup. Whenever it issues a create call, the lookup has succeeded
  and no open milestone had exactly that title.
\<close>

theorem ensureMilestone_lookup_before_create:
  "(\<forall>ms. issues_listMilestones gh (owner ref) (repo ref) = Inr ms
          \<and> (\<exists>m \<in> set ms. ms_title m = t) \<longrightarrow>
      (\<exists>pre m post. ms = pre @ m # post \<and> (\<forall>x \<in> set pre. ms_title x \<noteq> t) \<and> ms_title m = t
         \<and> ensureMilestone gh ref t = (Inr (ms_number m), [ListMilestones (owner ref) (repo ref)])))
   \<and> (\<forall>ow rp t'. CreateMilestone ow rp t' \<in> set (snd (ensureMilestone gh ref t)) \<longrightarrow>
        (\<exists>ms. issues_listMilestones gh (owner ref) (repo ref) = Inr ms
              \<and> (\<forall>m \<in> set ms. ms_title m \<noteq> t)))"
proof (intro conjI allI impI)
  fix ms
  assume a: "issues_listMilestones gh (owner ref) (repo ref) = Inr ms
             \<and> (\<exists>m \<in> set ms. ms_title m = t)"
  then obtain pre m post where s: "ms = pre @ m # post" "\<forall>x \<in> set pre. ms_title x \<noteq> t"
      "ms_title m = t" "first_with_title ms t = Some (ms_number m)"
    using first_with_title_split by blast
  from a s(4)
  have "ensureMilestone gh ref t = (Inr (ms_number m), [ListMilestones (owner ref) (repo ref)])"
    by (simp add: ensureMilestone_def findMilestoneByTitle_def listMilestones_def)
  with s show "\<exists>pre m post. ms = pre @ m # post \<and> (\<forall>x \<in> set pre. ms_title x \<noteq> t)
         \<and> ms_title m = t
         \<and> ensureMilestone gh ref t = (Inr (ms_number m), [ListMilestones (owner ref) (repo ref)])"
    by blast
next
  fix ow rp t'
  assume "CreateMilestone ow rp t' \<in> set (snd (ensureMilestone gh ref t))"
  then show "\<exists>ms. issues_listMilestones gh (owner ref) (repo ref) = Inr ms
              \<and> (\<forall>m \<in> set ms. ms_title m \<noteq> t)"
    by (auto simp: ensureMilestone_def findMilestoneByTitle_def listMilestones_def
                   first_with_title_None
             split: sum.splits option.splits)
qed

text \<open>
  An instance with two open milestones titled \<open>Bugfix Sprint\<close>, numbers 7 and 9: the
  first is returned after the lookup alone. A title that no open milestone has leads to
  the create call.
\<close>

theorem ensureMilestone_lookup_before_create_witness:
  "ensureMilestone github_ok acme ''Bugfix Sprint'' = (Inr 7, [ListMilestones ''acme'' ''widgets''])
   \<and> CreateMilestone ''acme'' ''widgets'' ''Q3''
        \<in> set (snd (ensureMilestone github_ok acme ''Q3''))
   \<and> \<not> (\<exists>m \<in> set open_milestones. ms_title m = ''Q3'')"
proof -
  have l: "issues_listMilestones github_ok (owner acme) (repo acme) = Inr open_milestones"
    by (simp add: github_ok_def)
  have ex: "\<exists>m \<in> set open_milestones. ms_title m = ''Bugfix Sprint''"
    by (simp add: open_milestones_def)
  have cr: "CreateMilestone ''acme'' ''widgets'' ''Q3'' \<in> set (snd (ensureMilestone github_ok acme ''Q3''))"
    by (simp add: ensureMilestone_def findMilestoneByTitle_def listMilestones_def github_ok_def
          open_milestones_def acme_def)
  from ensureMilestone_lookup_before_create [of github_ok acme "''Bugfix Sprint''"] l ex
  obtain pre m post where s: "open_milestones = pre @ m # post"
      "\<forall>x \<in> set pre. ms_title x \<noteq> ''Bugfix Sprint''" "ms_title m = ''Bugfix Sprint''"
      "ensureMilestone github_ok acme ''Bugfix Sprint''
         = (Inr (ms_number m), [ListMilestones (owner acme) (repo acme)])"
    by blast
  have "ensureMilestone github_ok acme ''Bugfix Sprint'' = (Inr 7, [ListMilestones ''acme'' ''widgets''])"
    by (simp add: ensureMilestone_def findMilestoneByTitle_def listMilestones_def github_ok_def
          open_milestones_def acme_def)
  moreover
  from ensureMilestone_lookup_before_create [of github_ok acme "''Q3''"] cr l
  have "\<forall>m \<in> set open_milestones. ms_title m \<noteq> ''Q3''"
    by fastforce
  ultimately show ?thesis using cr by simp
qed

text \<open>
  C8, as the code has it. When listing the milestones, creating a milestone or attaching a
  milestone to the issue throws, the manager raises an engine error whose severity is
  the member \<open>github-api\<close> of the severity type and whose cause is the value thrown. A
  failed listing surfaces unchanged through \<open>ensureMilestone\<close>.
\<close>

theorem remote_failure_wrapped:
  "(issues_listMilestones gh (owner ref) (repo ref) = Inl err \<longrightarrow>
      (\<exists>e. fst (listMilestones gh ref) = Inl e \<and> fst (ensureMilestone gh ref t) = Inl e
          \<and> severity e = GithubApi \<and> severity_string (severity e) = ''github-api''
          \<and> cause e = Some err))
   \<and> (issues_listMilestones gh (owner ref) (repo ref) = Inr ms \<and> first_with_title ms t = None
        \<and> issues_createMilestone gh (owner ref) (repo ref) t = Inl err \<longrightarrow>
      (\<exists>e. fst (ensureMilestone gh ref t) = Inl e
          \<and> severity e = GithubApi \<and> severity_string (severity e) = ''github-api''
          \<and> cause e = Some err))
   \<and> (issues_update gh (owner ref) (repo ref) issueNumber milestoneNumber = Some err \<longrightarrow>
      (\<exists>e. fst (attachMilestoneToIssue gh ref issueNumber milestoneNumber) = Inl e
          \<and> severity e = GithubApi \<and> severity_string (severity e) = ''github-api''
          \<and> cause e = Some err))"
  by (simp add: listMilestones_def findMilestoneByTitle_def ensureMilestone_def
        attachMilestoneToIssue_def githubApiError_def)

theorem remote_failure_wrapped_witness:
  "(\<exists>e. fst (listMilestones (github_ok\<lparr>issues_listMilestones := (\<lambda>ow rp. Inl outage)\<rparr>) acme) = Inl e
        \<and> severity_string (severity e) = ''github-api'' \<and> cause e = Some outage)
   \<and> (\<exists>e. fst (ensureMilestone (github_ok\<lparr>issues_createMilestone := (\<lambda>ow rp t. Inl outage)\<rparr>) acme ''Q3'')
             = Inl e
        \<and> severity_string (severity e) = ''github-api'' \<and> cause e = Some outage)
   \<and> (\<exists>e. fst (attachMilestoneToIssue (github_ok\<lparr>issues_update := (\<lambda>ow rp n m. Some outage)\<rparr>) acme 42 7)
             = Inl e
        \<and> severity_string (severity e) = ''github-api'' \<and> cause e = Some outage)"
proof -
  let ?g1 = "github_ok\<lparr>issues_listMilestones := (\<lambda>ow rp. Inl outage)\<rparr>"
  let ?g2 = "github_ok\<lparr>issues_createMilestone := (\<lambda>ow rp t. Inl outage)\<rparr>"
  let ?g3 = "github_ok\<lparr>issues_update := (\<lambda>ow rp n m. Some outage)\<rparr>"
  have h1: "issues_listMilestones ?g1 (owner acme) (repo acme) = Inl outage"
    by simp
  have h2: "issues_listMilestones ?g2 (owner acme) (repo acme) = Inr open_milestones
            \<and> first_with_title open_milestones ''Q3'' = None
            \<and> issues_createMilestone ?g2 (owner acme) (repo acme) ''Q3'' = Inl outage"
    by (simp add: github_ok_def open_milestones_def)
  have h3: "issues_update ?g3 (owner acme) (repo acme) 42 7 = Some outage"
    by simp
  from remote_failure_wrapped [of ?g1 acme outage "''Q3''" open_milestones 42 7] h1
  have c1: "\<exists>e. fst (listMilestones ?g1 acme) = Inl e
        \<and> severity_string (severity e) = ''github-api'' \<and> cause e = Some outage"
    by blast
  from remote_failure_wrapped [of ?g2 acme outage "''Q3''" open_milestones 42 7] h2
  have c2: "\<exists>e. fst (ensureMilestone ?g2 acme ''Q3'') = Inl e
        \<and> severity_string (severity e) = ''github-api'' \<and> cause e = Some outage"
    by blast
  from remote_failure_wrapped [of ?g3 acme outage "''Q3''" open_milestones 42 7] h3
  have c3: "\<exists>e. fst (attachMilestoneToIssue ?g3 acme 42 7) = Inl e
        \<and> severity_string (severity e) = ''github-api'' \<and> cause e = Some outage"
    by blast
  from c1 c2 c3 show ?thesis by blast
qed

text \<open>
  C8 as it is stated fails: the tag of the error raised for a failed listing is
  \<open>github-api\<close>, not \<open>api\<close>, and no member of the severity type is tagged \<open>api\<close>.
\<close>

theorem severity_tag_counterexample:
  "fst (listMilestones (github_ok\<lparr>issues_listMilestones := (\<lambda>ow rp. Inl outage)\<rparr>) acme)
     = Inl \<lparr>severity = GithubApi, message = ''Failed to list milestones for acme/widgets'',
            cause = Some outage, details = None\<rparr>
   \<and> severity_string GithubApi \<noteq> ''api''
   \<and> ''api'' \<notin> set (map severity_string [Fatal, Recoverable, Config, GithubApi, Rule])"
  by (simp add: listMilestones_def githubApiError_def acme_def)

section \<open>Properties of the error display\<close>

text \<open>
  C9. Without debug, the display is the upper-cased severity in brackets, the message
  and, when there is a detail map, its JSON rendering; two errors that differ in their
  cause only are displayed alike.
\<close>

theorem toDisplay_without_debug:
  "toDisplay stringify False e =
     ''['' @ toUpperCase (severity_string (severity e)) @ ''] '' @ message e
       @ (case details e of None \<Rightarrow> [] | Some d \<Rightarrow> newline @ ''Details: '' @ stringify d)
   \<and> (severity e = severity e' \<and> message e = message e' \<and> details e = details e' \<longrightarrow>
        toDisplay stringify False e = toDisplay stringify False e')"
  by (simp add: toDisplay_def split: option.splits)

text \<open>
  An instance: one error with an \<open>Error\<close> cause and one without cause are displayed
  alike without debug, and differently with it.
\<close>

theorem toDisplay_without_debug_witness:
  "toDisplay (\<lambda>d. ''{}'') False
       \<lparr>severity = GithubApi, message = ''Failed to list milestones for acme/widgets'',
        cause = Some outage, details = None\<rparr>
     = ''[GITHUB-API] Failed to list milestones for acme/widgets''
   \<and> toDisplay (\<lambda>d. ''{}'') False
       \<lparr>severity = GithubApi, message = ''Failed to list milestones for acme/widgets'',
        cause = Some outage, details = None\<rparr>
     = toDisplay (\<lambda>d. ''{}'') False
       \<lparr>severity = GithubApi, message = ''Failed to list milestones for acme/widgets'',
        cause = None, details = None\<rparr>
   \<and> toDisplay (\<lambda>d. ''{}'') True
       \<lparr>severity = GithubApi, message = ''Failed to list milestones for acme/widgets'',
        cause = Some outage, details = None\<rparr>
     \<noteq> toDisplay (\<lambda>d. ''{}'') True
       \<lparr>severity = GithubApi, message = ''Failed to list milestones for acme/widgets'',
        cause = None, details = None\<rparr>"
proof -
  let ?e = "\<lparr>severity = GithubApi, message = ''Failed to list milestones for acme/widgets'',
        cause = Some outage, details = None\<rparr>"
  let ?e' = "\<lparr>severity = GithubApi, message = ''Failed to list milestones for acme/widgets'',
        cause = None, details = None\<rparr>"
  have same: "severity ?e = severity ?e' \<and> message ?e = message ?e' \<and> details ?e = details ?e'"
    by simp
  have dbg: "toDisplay (\<lambda>d. ''{}'') True ?e \<noteq> toDisplay (\<lambda>d. ''{}'') True ?e'"
    by (simp add: toDisplay_def outage_def)
  have shown: "''['' @ toUpperCase (severity_string (severity ?e)) @ ''] '' @ message ?e
       @ (case details ?e of None \<Rightarrow> [] | Some d \<Rightarrow> newline @ ''Details: '' @ ''{}'')
     = ''[GITHUB-API] Failed to list milestones for acme/widgets''"
    by (simp add: case_mapping_defs)
  from toDisplay_without_debug [of "\<lambda>d. ''{}''" ?e ?e'] same
  have shape: "toDisplay (\<lambda>d. ''{}'') False ?e
          = ''['' @ toUpperCase (severity_string (severity ?e)) @ ''] '' @ message ?e
            @ (case details ?e of None \<Rightarrow> [] | Some d \<Rightarrow> newline @ ''Details: '' @ ''{}'')"
    and alike: "toDisplay (\<lambda>d. ''{}'') False ?e = toDisplay (\<lambda>d. ''{}'') False ?e'"
    by blast+
  from shape shown have "toDisplay (\<lambda>d. ''{}'') False ?e
          = ''[GITHUB-API] Failed to list milestones for acme/widgets''"
    by (rule trans)
  with alike dbg show ?thesis
    by blast
qed

section \<open>Properties of the config normalizer\<close>

lemmas normalizer_defs =
  normalize_keys_def normalizeKey_def empty_object_def js_assign_def obj_get_def
  Object_entries_def is_digit_def index_value_def digit_val_def

lemmas validator_defs =
  loadConfig_def validateTracks_def validateMilestoneRules_def validateSelfHealing_def
  validateTelemetry_def sub_flag_def empty_config_def js_get_def obj_get_def
  Object_entries_def is_digit_def index_value_def digit_val_def

lemma validateTelemetry_shape:
  "\<exists>b p. validateTelemetry t = \<lparr>tel_enabled = Some b, tel_path = Some p\<rparr> \<and> p \<noteq> []"
  by (auto simp: validateTelemetry_def Let_def split: json.splits)

lemma sub_flag_boolean:
  "nullish v \<or> typeof v = ''boolean'' \<Longrightarrow> sub_flag v \<noteq> None"
  by (cases v) (auto simp: sub_flag_def)

lemma validateSelfHealing_falsy:
  "\<not> truthy s \<Longrightarrow>
     validateSelfHealing s = \<lparr>enabled = None, fixMissingTrack = None, fixMissingMilestone = None\<rparr>"
  by (simp add: validateSelfHealing_def)

lemma validateSelfHealing_truthy:
  assumes "truthy s"
  shows "enabled (validateSelfHealing s) \<noteq> None"
    and "nullish (get_prop s ''fix_missing_track'')
         \<or> typeof (get_prop s ''fix_missing_track'') = ''boolean''
         \<Longrightarrow> fixMissingTrack (validateSelfHealing s) \<noteq> None"
    and "nullish (get_prop s ''fix_missing_milestone'')
         \<or> typeof (get_prop s ''fix_missing_milestone'') = ''boolean''
         \<Longrightarrow> fixMissingMilestone (validateSelfHealing s) \<noteq> None"
  using assms by (auto simp: validateSelfHealing_def sub_flag_boolean split: json.splits)

lemma validateTracks_present: "validateTracks v \<noteq> None \<longleftrightarrow> (\<exists>kvs. v = JObj kvs)"
  by (cases v) (auto simp: validateTracks_def)

lemma validateMilestoneRules_present:
  "validateMilestoneRules v \<noteq> None \<longleftrightarrow> (\<exists>kvs. v = JObj kvs)"
  by (cases v) (auto simp: validateMilestoneRules_def)

text \<open>
  C3, as the code has it. \<open>loadConfig\<close> is total: every throw inside it is caught. When
  the file is missing, cannot be loaded, or holds a document that is falsy or not an
  object, the result is the empty object, with \<open>tracks\<close>, \<open>milestone_rules\<close>,
  \<open>selfHealing\<close> and \<open>telemetry\<close> all undefined. Otherwise, with the sections being what
  \<open>normalized.tracks\<close>, \<open>normalized.milestone_rules\<close>, \<open>normalized.self_healing\<close> and
  \<open>normalized.telemetry\<close> read: \<open>telemetry\<close> is present with a boolean \<open>enabled\<close> and a
  non-empty string \<open>path\<close>; \<open>selfHealing\<close> is present, as the empty object when the
  section is falsy, and when it is truthy with a boolean \<open>enabled\<close> and with
  \<open>fixMissingTrack\<close> and \<open>fixMissingMilestone\<close> each a boolean whenever the flag given
  in the section is absent, \<open>null\<close> or a boolean; \<open>tracks\<close> and \<open>milestone_rules\<close> are
  each present exactly when their section is an object that is not an array, and are
  undefined otherwise. The field \<open>milestones\<close> is never set. Fields that are present
  have their declared type by the types of the model.
\<close>

theorem loadConfig_shape:
  "(\<not> (\<exists>doc. fs path = Loaded doc \<and> truthy doc \<and> typeof doc = ''object'') \<longrightarrow>
       loadConfig fs path = empty_config)
   \<and> (\<forall>doc. fs path = Loaded doc \<and> truthy doc \<and> typeof doc = ''object'' \<longrightarrow>
        (\<exists>b p. telemetry (loadConfig fs path) = Some \<lparr>tel_enabled = Some b, tel_path = Some p\<rparr>
               \<and> p \<noteq> [])
        \<and> (\<exists>sh. selfHealing (loadConfig fs path) = Some sh
               \<and> (if truthy (js_get (normalize_keys doc) ''self_healing'')
                   then enabled sh \<noteq> None
                     \<and> (nullish (get_prop (js_get (normalize_keys doc) ''self_healing'')
                                   ''fix_missing_track'')
                          \<or> typeof (get_prop (js_get (normalize_keys doc) ''self_healing'')
                                      ''fix_missing_track'') = ''boolean''
                          \<longrightarrow> fixMissingTrack sh \<noteq> None)
                     \<and> (nullish (get_prop (js_get (normalize_keys doc) ''self_healing'')
                                   ''fix_missing_milestone'')
                          \<or> typeof (get_prop (js_get (normalize_keys doc) ''self_healing'')
                                      ''fix_missing_milestone'') = ''boolean''
                          \<longrightarrow> fixMissingMilestone sh \<noteq> None)
                   else sh = \<lparr>enabled = None, fixMissingTrack = None, fixMissingMilestone = None\<rparr>))
        \<and> (tracks (loadConfig fs path) \<noteq> None
             \<longleftrightarrow> (\<exists>kvs. js_get (normalize_keys doc) ''tracks'' = JObj kvs))
        \<and> (milestone_rules (loadConfig fs path) \<noteq> None
             \<longleftrightarrow> (\<exists>kvs. js_get (normalize_keys doc) ''milestone_rules'' = JObj kvs)))
   \<and> milestones (loadConfig fs path) = None"
  (is "?A \<and> (\<forall>doc. ?U doc \<longrightarrow> ?T \<and> ?S doc \<and> ?TR doc \<and> ?MR doc) \<and> ?C")
proof -
  have A: ?A
    by (cases "fs path") (auto simp: loadConfig_def)
  have C: ?C
    by (cases "fs path") (simp_all add: loadConfig_def empty_config_def Let_def)
  have B: "\<forall>doc. ?U doc \<longrightarrow> ?T \<and> ?S doc \<and> ?TR doc \<and> ?MR doc"
  proof (rule allI, rule impI)
    fix doc
    assume u: "?U doc"
    let ?n = "normalize_keys doc"
    let ?s = "js_get ?n ''self_healing''"
    from u have cfg: "loadConfig fs path =
        \<lparr>tracks = validateTracks (js_get ?n ''tracks''),
         milestone_rules = validateMilestoneRules (js_get ?n ''milestone_rules''),
         milestones = None,
         selfHealing = Some (validateSelfHealing ?s),
         telemetry = Some (validateTelemetry (js_get ?n ''telemetry''))\<rparr>"
      by (simp add: loadConfig_def Let_def)
    from validateTelemetry_shape [of "js_get ?n ''telemetry''"] cfg
    have t: ?T
      by auto
    have s: "?S doc"
    proof (cases "truthy ?s")
      case True
      from validateSelfHealing_truthy [OF True] True cfg show ?thesis
        by simp
    next
      case False
      from validateSelfHealing_falsy [OF False] False cfg show ?thesis
        by simp
    qed
    from validateTracks_present [of "js_get ?n ''tracks''"] cfg
    have tr: "?TR doc"
      by simp
    from validateMilestoneRules_present [of "js_get ?n ''milestone_rules''"] cfg
    have mr: "?MR doc"
      by simp
    from t s tr mr show "?T \<and> ?S doc \<and> ?TR doc \<and> ?MR doc"
      by (intro conjI)
  qed
  show ?thesis
    by (rule conjI [OF A conjI [OF B C]])
qed

text \<open>
  An instance: a document that is \<open>null\<close> gives the empty object; the document of
  scenario A in the keys the loader reads, without its \<open>fix_missing_milestone\<close> flag,
  gives all four sections, and the absent flag becomes a boolean.
\<close>

theorem loadConfig_shape_witness:
  "loadConfig (\<lambda>p. Loaded JNull) ''.github/orchestrator.yml'' = empty_config
   \<and> (\<exists>b p. telemetry
         (loadConfig
            (\<lambda>p. Loaded (JObj [(''tracks'', JObj [(''bug'', JArr [JStr ''bug''])]),
                               (''milestone_rules'', JObj [(''bug'', JStr ''Bugfix Sprint'')]),
                               (''self-healing'', JObj [(''enabled'', JBool True),
                                                        (''fix_missing_track'', JBool True)])]))
            ''.github/orchestrator.yml'')
        = Some \<lparr>tel_enabled = Some b, tel_path = Some p\<rparr> \<and> p \<noteq> [])
   \<and> (\<exists>sh. selfHealing
         (loadConfig
            (\<lambda>p. Loaded (JObj [(''tracks'', JObj [(''bug'', JArr [JStr ''bug''])]),
                               (''milestone_rules'', JObj [(''bug'', JStr ''Bugfix Sprint'')]),
                               (''self-healing'', JObj [(''enabled'', JBool True),
                                                        (''fix_missing_track'', JBool True)])]))
            ''.github/orchestrator.yml'')
        = Some sh \<and> enabled sh \<noteq> None \<and> fixMissingTrack sh \<noteq> None
          \<and> fixMissingMilestone sh \<noteq> None)
   \<and> tracks
         (loadConfig
            (\<lambda>p. Loaded (JObj [(''tracks'', JObj [(''bug'', JArr [JStr ''bug''])]),
                               (''milestone_rules'', JObj [(''bug'', JStr ''Bugfix Sprint'')]),
                               (''self-healing'', JObj [(''enabled'', JBool True),
                                                        (''fix_missing_track'', JBool True)])]))
            ''.github/orchestrator.yml'') \<noteq> None
   \<and> milestone_rules
         (loadConfig
            (\<lambda>p. Loaded (JObj [(''tracks'', JObj [(''bug'', JArr [JStr ''bug''])]),
                               (''milestone_rules'', JObj [(''bug'', JStr ''Bugfix Sprint'')]),
                               (''self-healing'', JObj [(''enabled'', JBool True),
                                                        (''fix_missing_track'', JBool True)])]))
            ''.github/orchestrator.yml'') \<noteq> None"
proof -
  let ?path = "''.github/orchestrator.yml''"
  let ?doc = "JObj [(''tracks'', JObj [(''bug'', JArr [JStr ''bug''])]),
                    (''milestone_rules'', JObj [(''bug'', JStr ''Bugfix Sprint'')]),
                    (''self-healing'', JObj [(''enabled'', JBool True),
                                             (''fix_missing_track'', JBool True)])]"
  let ?f0 = "\<lambda>p::string. Loaded JNull"
  let ?f1 = "\<lambda>p::string. Loaded ?doc"
  let ?s = "js_get (normalize_keys ?doc) ''self_healing''"
  have no: "\<not> (\<exists>doc. ?f0 ?path = Loaded doc \<and> truthy doc \<and> typeof doc = ''object'')"
    by simp
  have yes: "?f1 ?path = Loaded ?doc \<and> truthy ?doc \<and> typeof ?doc = ''object''"
    by simp
  have n: "normalize_keys ?doc
             = \<lparr>own = [(''tracks'', JObj [(''bug'', JArr [JStr ''bug''])]),
                       (''milestone_rules'', JObj [(''bug'', JStr ''Bugfix Sprint'')]),
                       (''self_healing'', JObj [(''enabled'', JBool True),
                                                (''fix_missing_track'', JBool True)])],
                proto = Object_prototype\<rparr>"
    by (simp add: normalizer_defs)
  have s: "?s = JObj [(''enabled'', JBool True), (''fix_missing_track'', JBool True)]"
    unfolding n by (simp add: js_get_def obj_get_def)
  have sh: "truthy ?s"
    and ft: "nullish (get_prop ?s ''fix_missing_track'')
             \<or> typeof (get_prop ?s ''fix_missing_track'') = ''boolean''"
    and fm: "nullish (get_prop ?s ''fix_missing_milestone'')
             \<or> typeof (get_prop ?s ''fix_missing_milestone'') = ''boolean''"
    unfolding s by (simp_all add: obj_get_def)
  have tr: "\<exists>kvs. js_get (normalize_keys ?doc) ''tracks'' = JObj kvs"
    unfolding n by (simp add: js_get_def obj_get_def)
  have mr: "\<exists>kvs. js_get (normalize_keys ?doc) ''milestone_rules'' = JObj kvs"
    unfolding n by (simp add: js_get_def obj_get_def)
  from loadConfig_shape [of ?f0 ?path] no
  have c0: "loadConfig ?f0 ?path = empty_config"
    by blast
  from loadConfig_shape [of ?f1 ?path] yes
  have t1: "\<exists>b p. telemetry (loadConfig ?f1 ?path) = Some \<lparr>tel_enabled = Some b, tel_path = Some p\<rparr>
               \<and> p \<noteq> []"
    and s1: "\<exists>sh. selfHealing (loadConfig ?f1 ?path) = Some sh
               \<and> (if truthy ?s
                   then enabled sh \<noteq> None
                     \<and> (nullish (get_prop ?s ''fix_missing_track'')
                          \<or> typeof (get_prop ?s ''fix_missing_track'') = ''boolean''
                          \<longrightarrow> fixMissingTrack sh \<noteq> None)
                     \<and> (nullish (get_prop ?s ''fix_missing_milestone'')
                          \<or> typeof (get_prop ?s ''fix_missing_milestone'') = ''boolean''
                          \<longrightarrow> fixMissingMilestone sh \<noteq> None)
                   else sh = \<lparr>enabled = None, fixMissingTrack = None, fixMissingMilestone = None\<rparr>)"
    and tr1: "tracks (loadConfig ?f1 ?path) \<noteq> None
             \<longleftrightarrow> (\<exists>kvs. js_get (normalize_keys ?doc) ''tracks'' = JObj kvs)"
    and mr1: "milestone_rules (loadConfig ?f1 ?path) \<noteq> None
             \<longleftrightarrow> (\<exists>kvs. js_get (normalize_keys ?doc) ''milestone_rules'' = JObj kvs)"
    by blast+
  from s1 sh ft fm
  have s2: "\<exists>sh. selfHealing (loadConfig ?f1 ?path) = Some sh \<and> enabled sh \<noteq> None
               \<and> fixMissingTrack sh \<noteq> None \<and> fixMissingMilestone sh \<noteq> None"
    by (simp only: if_True) blast
  from tr1 tr have tr2: "tracks (loadConfig ?f1 ?path) \<noteq> None"
    by (rule iffD2)
  from mr1 mr have mr2: "milestone_rules (loadConfig ?f1 ?path) \<noteq> None"
    by (rule iffD2)
  from c0 t1 s2 tr2 mr2 show ?thesis
    by (intro conjI)
qed

text \<open>
  C3 as it is stated fails. For the document \<open>null\<close> the loader returns \<open>{}\<close>, in which
  no section is present. For an object without \<open>tracks\<close>, \<open>milestone_rules\<close> and
  \<open>self_healing\<close> sections, \<open>tracks\<close> and \<open>milestone_rules\<close> are undefined and
  \<open>selfHealing\<close> is the empty object, with none of its three flags.
\<close>

theorem loadConfig_fields_counterexample:
  "tracks (loadConfig (\<lambda>p. Loaded JNull) ''.github/orchestrator.yml'') = None
   \<and> milestone_rules (loadConfig (\<lambda>p. Loaded JNull) ''.github/orchestrator.yml'') = None
   \<and> selfHealing (loadConfig (\<lambda>p. Loaded JNull) ''.github/orchestrator.yml'') = None
   \<and> telemetry (loadConfig (\<lambda>p. Loaded JNull) ''.github/orchestrator.yml'') = None
   \<and> tracks (loadConfig (\<lambda>p. Loaded (JObj [(''telemetry'', JObj [(''enabled'', JBool False)])]))
               ''.github/orchestrator.yml'') = None
   \<and> milestone_rules (loadConfig (\<lambda>p. Loaded (JObj [(''telemetry'', JObj [(''enabled'', JBool False)])]))
               ''.github/orchestrator.yml'') = None
   \<and> selfHealing (loadConfig (\<lambda>p. Loaded (JObj [(''telemetry'', JObj [(''enabled'', JBool False)])]))
               ''.github/orchestrator.yml'')
       = Some \<lparr>enabled = None, fixMissingTrack = None, fixMissingMilestone = None\<rparr>"
proof -
  have n: "normalize_keys (JObj [(''telemetry'', JObj [(''enabled'', JBool False)])])
             = \<lparr>own = [(''telemetry'', JObj [(''enabled'', JBool False)])],
                proto = Object_prototype\<rparr>"
    by (simp add: normalizer_defs)
  show ?thesis
    by (simp add: validator_defs n)
qed

text \<open>
  Sections reached through the prototype. A top-level key \<open>--proto--\<close> normalizes to
  \<open>__proto__\<close>, its object becomes the prototype of \<open>normalized\<close>, and the loader reads
  the sections of that object. After a \<open>__proto__: null\<close> the setter is out of reach and
  the next such key is stored as an own property, which no section reads. A track named
  \<open>__proto__\<close> is dropped.
\<close>

lemma loadConfig_prototype_key:
  "loadConfig
     (\<lambda>p. Loaded (JObj [(''--proto--'',
              JObj [(''tracks'', JObj [(''bug'', JArr [JStr ''bug''])]),
                    (''self_healing'', JObj [(''enabled'', JBool True)])])]))
     ''.github/orchestrator.yml''
   = \<lparr>tracks = Some [(''bug'', [''bug''])], milestone_rules = None, milestones = None,
      selfHealing = Some \<lparr>enabled = Some True, fixMissingTrack = Some False,
                          fixMissingMilestone = Some False\<rparr>,
      telemetry = Some \<lparr>tel_enabled = Some True, tel_path = Some ''telemetry''\<rparr>\<rparr>"
proof -
  have n: "normalize_keys (JObj [(''--proto--'',
              JObj [(''tracks'', JObj [(''bug'', JArr [JStr ''bug''])]),
                    (''self_healing'', JObj [(''enabled'', JBool True)])])])
             = \<lparr>own = [],
                proto = Prototype (JObj [(''tracks'', JObj [(''bug'', JArr [JStr ''bug''])]),
                                         (''self_healing'', JObj [(''enabled'', JBool True)])])\<rparr>"
    by (simp add: normalizer_defs)
  show ?thesis
    by (simp add: validator_defs n)
qed

lemma loadConfig_null_prototype:
  "tracks (loadConfig
     (\<lambda>p. Loaded (JObj [(''__proto__'', JNull),
                        (''--proto--'', JObj [(''tracks'', JObj [(''bug'', JArr [JStr ''bug''])])])]))
     ''.github/orchestrator.yml'') = None"
proof -
  have n: "normalize_keys (JObj [(''__proto__'', JNull),
                        (''--proto--'', JObj [(''tracks'', JObj [(''bug'', JArr [JStr ''bug''])])])])
             = \<lparr>own = [(''__proto__'', JObj [(''tracks'', JObj [(''bug'', JArr [JStr ''bug''])])])],
                proto = Null_prototype\<rparr>"
    by (simp add: normalizer_defs)
  show ?thesis
    by (simp add: validator_defs n)
qed

lemma validateTracks_proto_track:
  "validateTracks (JObj [(''__proto__'', JArr [JStr ''x'']), (''bug'', JArr [JStr ''bug''])])
     = Some [(''bug'', [''bug''])]"
  by (simp add: validator_defs)

text \<open>
  The configurations that the loader makes of the two documents of scenario A, and the
  run on a configuration file that holds a given document.
\<close>

lemma scenario_A_normalized:
  "normalize_keys scenario_A_doc
     = \<lparr>own = [(''tracks'', JObj [(''bug'', JArr [JStr ''bug''])]),
               (''milestoneRules'', JObj [(''bug'', JStr ''Bugfix Sprint'')]),
               (''selfHealing'', JObj [(''enabled'', JBool True), (''fixMissingTrack'', JBool True),
                                      (''fixMissingMilestone'', JBool True)])],
        proto = Object_prototype\<rparr>"
  by (simp add: scenario_A_doc_def normalizer_defs)

lemma scenario_A_snake_normalized:
  "normalize_keys scenario_A_snake_doc
     = \<lparr>own = [(''tracks'', JObj [(''bug'', JArr [JStr ''bug''])]),
               (''milestone_rules'', JObj [(''bug'', JStr ''Bugfix Sprint'')]),
               (''self_healing'', JObj [(''enabled'', JBool True),
                                       (''fix_missing_track'', JBool True),
                                       (''fix_missing_milestone'', JBool True)])],
        proto = Object_prototype\<rparr>"
  by (simp add: scenario_A_snake_doc_def normalizer_defs)

lemma scenario_A_config:
  "loadConfig (files (harness_with scenario_A_doc)) ''.github/orchestrator.yml''
     = \<lparr>tracks = Some [(''bug'', [''bug''])], milestone_rules = None, milestones = None,
        selfHealing = Some \<lparr>enabled = None, fixMissingTrack = None, fixMissingMilestone = None\<rparr>,
        telemetry = Some \<lparr>tel_enabled = Some True, tel_path = Some ''telemetry''\<rparr>\<rparr>"
proof -
  have "files (harness_with scenario_A_doc) ''.github/orchestrator.yml'' = Loaded scenario_A_doc"
      and "truthy scenario_A_doc" and "typeof scenario_A_doc = ''object''"
    by (simp_all add: harness_with_def scenario_A_doc_def)
  then show ?thesis
    by (simp add: validator_defs scenario_A_normalized)
qed

lemma scenario_A_snake_config:
  "loadConfig (files (harness_with scenario_A_snake_doc)) ''.github/orchestrator.yml''
     = \<lparr>tracks = Some [(''bug'', [''bug''])], milestone_rules = Some [(''bug'', ''Bugfix Sprint'')],
        milestones = None,
        selfHealing = Some \<lparr>enabled = Some True, fixMissingTrack = Some True,
                            fixMissingMilestone = Some True\<rparr>,
        telemetry = Some \<lparr>tel_enabled = Some True, tel_path = Some ''telemetry''\<rparr>\<rparr>"
proof -
  have "files (harness_with scenario_A_snake_doc) ''.github/orchestrator.yml''
          = Loaded scenario_A_snake_doc"
      and "truthy scenario_A_snake_doc" and "typeof scenario_A_snake_doc = ''object''"
    by (simp_all add: harness_with_def scenario_A_snake_doc_def)
  then show ?thesis
    by (simp add: validator_defs scenario_A_snake_normalized)
qed

lemma run_harness_with:
  "run (harness_with d) gh ctx
     = run_with_config (harness_with d) gh
         (loadConfig (files (harness_with d)) ''.github/orchestrator.yml'') ctx"
  by (simp add: run_def harness_with_def)

section \<open>Properties of the self-healing steps and of the run\<close>

lemmas manager_defs =
  listMilestones_def findMilestoneByTitle_def ensureMilestone_def attachMilestoneToIssue_def
  githubApiError_def

lemmas classifier_defs =
  classifyIssue_def configured_tracks_def Object_entries_def patterns_match_def is_digit_def
  index_value_def digit_val_def case_mapping_defs

lemmas run_defs =
  run_with_config_def self_healing_steps_def fix_track_label_def enforce_milestone_def
  inferMilestoneTitle_def obj_get_def telemetryEnabled_def build_payload_def manager_defs
  classifier_defs

lemmas scenario_defs =
  acme_def issue42_def issue_event_def open_milestones_def github_ok_def outage_def
  harness_with_def healing_config_def

text \<open>A step ends in a throw exactly when one of the remote calls it issued failed.\<close>

lemma ensureMilestone_calls:
  "ensureMilestone gh ref t = (r, cs) \<Longrightarrow> isl r = (\<exists>k \<in> set cs. call_failed gh k)"
  by (auto simp: ensureMilestone_def findMilestoneByTitle_def listMilestones_def
           split: sum.splits option.splits)

lemma attachMilestoneToIssue_calls:
  "attachMilestoneToIssue gh ref i m = (r, cs) \<Longrightarrow> isl r = (\<exists>k \<in> set cs. call_failed gh k)"
  by (auto simp: attachMilestoneToIssue_def split: option.splits)

lemma fix_track_label_calls:
  "fix_track_label gh ref iss sh c = (r, cs) \<Longrightarrow> isl r = (\<exists>k \<in> set cs. call_failed gh k)"
  by (auto simp: fix_track_label_def split: option.splits if_splits)

lemma enforce_milestone_calls:
  assumes "enforce_milestone gh config ref iss sh c = (r, cs)"
  shows "isl r = (\<exists>k \<in> set cs. call_failed gh k)"
proof (cases "enabled sh = Some True \<and> fixMissingMilestone sh = Some True")
  case False
  with assms show ?thesis by (auto simp: enforce_milestone_def)
next
  case on: True
  show ?thesis
  proof (cases "inferMilestoneTitle config (track c)")
    case None
    with assms on show ?thesis by (auto simp: enforce_milestone_def)
  next
    case (Some d)
    show ?thesis
    proof (cases "d \<noteq> [] \<and> Some d \<noteq> issue_milestone iss")
      case False
      with assms on Some show ?thesis by (auto simp: enforce_milestone_def)
    next
      case True
      obtain r1 cs1 where e: "ensureMilestone gh ref d = (r1, cs1)"
        by (cases "ensureMilestone gh ref d")
      note e1 = ensureMilestone_calls [OF e]
      show ?thesis
      proof (cases r1)
        case (Inl x)
        with assms on Some True e e1 show ?thesis by (auto simp: enforce_milestone_def)
      next
        case (Inr n)
        obtain r2 cs2 where a: "attachMilestoneToIssue gh ref (issue_number iss) n = (r2, cs2)"
          by (cases "attachMilestoneToIssue gh ref (issue_number iss) n")
        note a1 = attachMilestoneToIssue_calls [OF a]
        from assms on Some True e Inr a e1 a1 show ?thesis
          by (cases r2) (auto simp: enforce_milestone_def)
      qed
    qed
  qed
qed

lemma self_healing_steps_calls:
  assumes "self_healing_steps gh config ref iss c = (r, cs)"
  shows "isl r = (\<exists>k \<in> set cs. call_failed gh k)"
proof -
  define sh where "sh = (case selfHealing config of
                  None \<Rightarrow> \<lparr>enabled = Some False, fixMissingTrack = Some False,
                            fixMissingMilestone = Some False\<rparr>
                | Some s \<Rightarrow> s)"
  obtain r1 cs1 where f: "fix_track_label gh ref iss sh c = (r1, cs1)"
    by (cases "fix_track_label gh ref iss sh c")
  note f1 = fix_track_label_calls [OF f]
  show ?thesis
  proof (cases r1)
    case (Inl x)
    with assms f f1 show ?thesis by (auto simp: self_healing_steps_def sh_def)
  next
    case (Inr c1)
    obtain r2 cs2 where m: "enforce_milestone gh config ref iss sh c1 = (r2, cs2)"
      by (cases "enforce_milestone gh config ref iss sh c1")
    note m1 = enforce_milestone_calls [OF m]
    from assms f Inr m f1 m1 show ?thesis
      by (auto simp: self_healing_steps_def sh_def)
  qed
qed

text \<open>
  When a step ends in a throw, its remote calls end in the failure that raised what is
  thrown: the calls before the last succeeded.
\<close>

lemma ends_in_failure_single:
  "call_failed gh k \<Longrightarrow> raised_by gh k = Some e \<Longrightarrow> ends_in_failure gh [k] e"
  by (auto simp: ends_in_failure_def)

lemma ends_in_failure_prepend:
  assumes "\<forall>c \<in> set cs0. \<not> call_failed gh c" and "ends_in_failure gh cs e"
  shows "ends_in_failure gh (cs0 @ cs) e"
proof -
  from assms(2) obtain cs' k where k: "cs = cs' @ [k]" "list_all (\<lambda>c. \<not> call_failed gh c) cs'"
      "call_failed gh k" "raised_by gh k = Some e"
    by (auto simp: ends_in_failure_def)
  from assms(1) k(2) have "list_all (\<lambda>c. \<not> call_failed gh c) (cs0 @ cs')"
    by (auto simp: list_all_iff)
  with k show ?thesis
    unfolding ends_in_failure_def by (intro exI [of _ "cs0 @ cs'"] exI [of _ k]) simp
qed

lemma ensureMilestone_raised:
  assumes "ensureMilestone gh ref t = (Inl e, cs)"
  shows "ends_in_failure gh cs (Engine e)"
proof (cases "issues_listMilestones gh (owner ref) (repo ref)")
  case (Inl err)
  with assms have "cs = [ListMilestones (owner ref) (repo ref)]"
      and "e = githubApiError (''Failed to list milestones for '' @ owner ref @ ''/'' @ repo ref)
                 (Some err) None"
    by (auto simp: ensureMilestone_def findMilestoneByTitle_def listMilestones_def)
  with Inl show ?thesis
    by (simp add: ends_in_failure_single)
next
  case (Inr ms)
  with assms obtain err where c: "issues_createMilestone gh (owner ref) (repo ref) t = Inl err"
      and cs: "cs = [ListMilestones (owner ref) (repo ref)] @ [CreateMilestone (owner ref) (repo ref) t]"
      and e: "e = githubApiError (''Failed to create milestone '' @ quote @ t @ quote) (Some err) None"
    by (auto simp: ensureMilestone_def findMilestoneByTitle_def listMilestones_def
             split: option.splits sum.splits)
  from c e have "ends_in_failure gh [CreateMilestone (owner ref) (repo ref) t] (Engine e)"
    by (simp add: ends_in_failure_single)
  moreover from Inr have "\<forall>c \<in> set [ListMilestones (owner ref) (repo ref)]. \<not> call_failed gh c"
    by simp
  ultimately show ?thesis
    unfolding cs by (rule ends_in_failure_prepend [rotated])
qed

lemma attachMilestoneToIssue_raised:
  "attachMilestoneToIssue gh ref i m = (Inl e, cs) \<Longrightarrow> ends_in_failure gh cs (Engine e)"
  by (auto simp: attachMilestoneToIssue_def ends_in_failure_single split: option.splits)

lemma fix_track_label_raised:
  "fix_track_label gh ref iss sh c = (Inl e, cs) \<Longrightarrow> ends_in_failure gh cs e"
  by (auto simp: fix_track_label_def ends_in_failure_single split: option.splits if_splits)

lemma enforce_milestone_raised:
  assumes "enforce_milestone gh config ref iss sh c = (Inl e, cs)"
  shows "ends_in_failure gh cs e"
proof -
  from assms obtain d where on: "enabled sh = Some True \<and> fixMissingMilestone sh = Some True"
      and d: "inferMilestoneTitle config (track c) = Some d"
      and go: "d \<noteq> [] \<and> Some d \<noteq> issue_milestone iss"
    by (auto simp: enforce_milestone_def Let_def split: option.splits if_splits)
  obtain r1 cs1 where e1: "ensureMilestone gh ref d = (r1, cs1)"
    by (cases "ensureMilestone gh ref d")
  show ?thesis
  proof (cases r1)
    case (Inl x)
    with assms on d go e1 have "e = Engine x" "cs = cs1"
      by (auto simp: enforce_milestone_def)
    with ensureMilestone_raised [OF e1 [unfolded Inl]] show ?thesis
      by simp
  next
    case (Inr n)
    obtain r2 cs2 where a: "attachMilestoneToIssue gh ref (issue_number iss) n = (r2, cs2)"
      by (cases "attachMilestoneToIssue gh ref (issue_number iss) n")
    with assms on d go e1 Inr obtain x where x: "r2 = Inl x" "e = Engine x" "cs = cs1 @ cs2"
      by (cases r2) (auto simp: enforce_milestone_def)
    from ensureMilestone_calls [OF e1] Inr have "\<forall>c \<in> set cs1. \<not> call_failed gh c"
      by simp
    with attachMilestoneToIssue_raised [OF a [unfolded x(1)]] x show ?thesis
      by (simp add: ends_in_failure_prepend)
  qed
qed

lemma self_healing_steps_raised:
  assumes "self_healing_steps gh config ref iss c = (Inl e, cs)"
  shows "ends_in_failure gh cs e"
proof -
  define sh where "sh = (case selfHealing config of
                  None \<Rightarrow> \<lparr>enabled = Some False, fixMissingTrack = Some False,
                            fixMissingMilestone = Some False\<rparr>
                | Some s \<Rightarrow> s)"
  obtain r1 cs1 where f: "fix_track_label gh ref iss sh c = (r1, cs1)"
    by (cases "fix_track_label gh ref iss sh c")
  show ?thesis
  proof (cases r1)
    case (Inl x)
    with assms f have "e = x" "cs = cs1"
      by (auto simp: self_healing_steps_def sh_def)
    with fix_track_label_raised [OF f [unfolded Inl]] show ?thesis
      by simp
  next
    case (Inr c1)
    obtain r2 cs2 where m: "enforce_milestone gh config ref iss sh c1 = (r2, cs2)"
      by (cases "enforce_milestone gh config ref iss sh c1")
    with assms f Inr have r2: "r2 = Inl e" and cs: "cs = cs1 @ cs2"
      by (auto simp: self_healing_steps_def sh_def)
    from fix_track_label_calls [OF f] Inr have "\<forall>c \<in> set cs1. \<not> call_failed gh c"
      by simp
    with enforce_milestone_raised [OF m [unfolded r2]] cs show ?thesis
      by (simp add: ends_in_failure_prepend)
  qed
qed

text \<open>The steps change the action list only, and only by appending to it.\<close>

lemma fix_track_label_frame:
  "fix_track_label gh ref iss sh c = (Inr c', cs) \<Longrightarrow>
     track c' = track c \<and> trackLabelToApply c' = trackLabelToApply c \<and> violations c' = violations c
     \<and> prefix (actions c) (actions c')"
  by (auto simp: fix_track_label_def split: option.splits if_splits)

lemma enforce_milestone_frame:
  "enforce_milestone gh config ref iss sh c = (Inr (c', fin), cs) \<Longrightarrow>
     track c' = track c \<and> trackLabelToApply c' = trackLabelToApply c \<and> violations c' = violations c
     \<and> prefix (actions c) (actions c')"
  by (auto simp: enforce_milestone_def Let_def
           split: option.splits if_splits sum.splits prod.splits)

lemma self_healing_steps_frame:
  assumes "self_healing_steps gh config ref iss c = (Inr (c', fin), cs)"
  shows "track c' = track c \<and> trackLabelToApply c' = trackLabelToApply c
     \<and> violations c' = violations c \<and> prefix (actions c) (actions c')"
proof -
  define sh where "sh = (case selfHealing config of
                  None \<Rightarrow> \<lparr>enabled = Some False, fixMissingTrack = Some False,
                            fixMissingMilestone = Some False\<rparr>
                | Some s \<Rightarrow> s)"
  obtain r1 cs1 where f: "fix_track_label gh ref iss sh c = (r1, cs1)"
    by (cases "fix_track_label gh ref iss sh c")
  from assms f obtain c1 where r1: "r1 = Inr c1"
    by (cases r1) (auto simp: self_healing_steps_def sh_def)
  obtain cs2 where m: "enforce_milestone gh config ref iss sh c1 = (Inr (c', fin), cs2)"
    using assms f r1 by (auto simp: self_healing_steps_def sh_def split: prod.splits)
  from fix_track_label_frame [OF f [unfolded r1]] enforce_milestone_frame [OF m]
  show ?thesis by (auto intro: prefix_order.trans)
qed

lemma fix_track_label_disabled:
  "enabled sh \<noteq> Some True \<Longrightarrow> fix_track_label gh ref iss sh c = (Inr c, [])"
  by (simp add: fix_track_label_def split: option.splits)

lemma enforce_milestone_disabled:
  "enabled sh \<noteq> Some True \<Longrightarrow>
     enforce_milestone gh config ref iss sh c = (Inr (c, issue_milestone iss), [])"
  by (simp add: enforce_milestone_def)

text \<open>
  C5. When \<open>selfHealing.enabled\<close> is not \<open>true\<close> (it is \<open>false\<close>, or unset, or the whole
  section is absent), the self-healing steps issue no remote call, return the
  classification unchanged, so that the action list is what the classifier produced, and
  return the current milestone title of the issue as the final one. The run then issues
  no remote call either, and a completed run reports those actions and that milestone.
\<close>

theorem disabled_self_healing_is_inert:
  assumes "selfHealing config = None
           \<or> (\<exists>sh. selfHealing config = Some sh \<and> enabled sh \<noteq> Some True)"
  shows "self_healing_steps gh config ref iss c = (Inr (c, issue_milestone iss), [])
       \<and> calls (run_with_config H gh config ctx) = []
       \<and> (\<forall>res. outcome (run_with_config H gh config ctx) = Completed res \<longrightarrow>
            (\<exists>i. payload_issue ctx = Some i
                \<and> res_actions res = actions (classifyIssue (String_toLowerCase H) config (map label_name (issue_labels i)))
                \<and> res_milestone res = issue_milestone i))"
proof -
  have inert: "self_healing_steps gh config ref iss c = (Inr (c, issue_milestone iss), [])"
    for ref iss c
    using assms
    by (auto simp: self_healing_steps_def fix_track_label_disabled enforce_milestone_disabled)
  show ?thesis
  proof (cases "payload_issue ctx")
    case None
    with inert show ?thesis by (simp add: run_with_config_def)
  next
    case (Some i)
    with inert show ?thesis
      by (simp add: run_with_config_def Let_def split: sum.splits)
  qed
qed

text \<open>
  The instance switches \<open>enabled\<close> off in a configuration whose two repairs are on and
  would both apply: nothing is called, no action is recorded, the milestone stays absent.
\<close>

theorem disabled_self_healing_is_inert_witness:
  "self_healing_steps github_ok
       (healing_config\<lparr>selfHealing := Some \<lparr>enabled = Some False, fixMissingTrack = Some True,
                                              fixMissingMilestone = Some True\<rparr>\<rparr>)
       acme issue42 (classifyIssue ascii_toLowerCase healing_config [''needs-triage'', ''Bug''])
     = (Inr (classifyIssue ascii_toLowerCase healing_config [''needs-triage'', ''Bug''], None), [])
   \<and> calls (run_with_config (harness_with JNull) github_ok
       (healing_config\<lparr>selfHealing := Some \<lparr>enabled = Some False, fixMissingTrack = Some True,
                                              fixMissingMilestone = Some True\<rparr>\<rparr>)
       issue_event) = []
   \<and> (\<exists>res. outcome (run_with_config (harness_with JNull) github_ok
       (healing_config\<lparr>selfHealing := Some \<lparr>enabled = Some False, fixMissingTrack = Some True,
                                              fixMissingMilestone = Some True\<rparr>\<rparr>)
       issue_event) = Completed res \<and> res_actions res = [] \<and> res_milestone res = None
       \<and> res_track res = Some ''bug'')"
proof -
  let ?cfg = "healing_config\<lparr>selfHealing := Some \<lparr>enabled = Some False, fixMissingTrack = Some True,
                                              fixMissingMilestone = Some True\<rparr>\<rparr>"
  let ?c = "classifyIssue ascii_toLowerCase healing_config [''needs-triage'', ''Bug'']"
  have off: "selfHealing ?cfg = None \<or> (\<exists>sh. selfHealing ?cfg = Some sh \<and> enabled sh \<noteq> Some True)"
    by simp
  have run: "\<exists>res. outcome (run_with_config (harness_with JNull) github_ok ?cfg issue_event)
                 = Completed res \<and> res_actions res = [] \<and> res_milestone res = None
                 \<and> res_track res = Some ''bug''"
    by (simp add: run_defs scenario_defs)
  have ms: "issue_milestone issue42 = None"
    by (simp add: issue42_def)
  from disabled_self_healing_is_inert [OF off, of github_ok acme issue42 ?c "harness_with JNull"
      issue_event] ms run
  show ?thesis by simp
qed

text \<open>
  C1, as the code has it. The whole run is one \<open>try\<close>: when one of its remote calls
  fails, that call is the last one, the calls before it succeeded, and the run goes to
  the \<open>catch\<close>. There it hands to \<open>setFailed\<close> the message of what the failed call
  raised, after the fixed prefix, and hands nothing to the persistence collaborator. A
  telemetry payload is handed over only in a run whose remote calls all succeeded and
  whose telemetry is enabled; it is the only one, has version 1, and carries the final
  actions and milestone title and the violations of the classification.
\<close>

theorem remote_failure_skips_telemetry:
  "((\<exists>k \<in> set (calls (run_with_config H gh config ctx)). call_failed gh k) \<longrightarrow>
       telemetry_calls (run_with_config H gh config ctx) = []
       \<and> (\<exists>cs k e. calls (run_with_config H gh config ctx) = cs @ [k]
             \<and> (\<forall>c \<in> set cs. \<not> call_failed gh c)
             \<and> call_failed gh k \<and> raised_by gh k = Some e
             \<and> outcome (run_with_config H gh config ctx) = Failed (failure_message e)))
   \<and> (\<forall>n p. (n, p) \<in> set (telemetry_calls (run_with_config H gh config ctx)) \<longrightarrow>
         (\<forall>k \<in> set (calls (run_with_config H gh config ctx)). \<not> call_failed gh k)
         \<and> telemetryEnabled H config
         \<and> telemetry_calls (run_with_config H gh config ctx) = [(n, p)]
         \<and> version p = 1
         \<and> (\<exists>i c fin cs. payload_issue ctx = Some i \<and> n = issue_number i
               \<and> self_healing_steps gh config (ctx_repo ctx) i
                     (classifyIssue (String_toLowerCase H) config (map label_name (issue_labels i)))
                   = (Inr (c, fin), cs)
               \<and> payload_actions p = actions c \<and> ti_milestone (issue p) = fin
               \<and> classification p = c
               \<and> violations (classification p)
                     = violations (classifyIssue (String_toLowerCase H) config
                                     (map label_name (issue_labels i)))))"
proof (cases "payload_issue ctx")
  case None
  then show ?thesis by (simp add: run_with_config_def)
next
  case (Some i)
  let ?c0 = "classifyIssue (String_toLowerCase H) config (map label_name (issue_labels i))"
  obtain r cs where sh: "self_healing_steps gh config (ctx_repo ctx) i ?c0 = (r, cs)"
    by (cases "self_healing_steps gh config (ctx_repo ctx) i ?c0")
  note fails = self_healing_steps_calls [OF sh]
  show ?thesis
  proof (cases r)
    case (Inl e)
    from self_healing_steps_raised [OF sh [unfolded Inl]]
    obtain cs' k where k: "cs = cs' @ [k]" "\<forall>c \<in> set cs'. \<not> call_failed gh c"
        "call_failed gh k" "raised_by gh k = Some e"
      by (auto simp: ends_in_failure_def list_all_iff)
    from Some sh Inl have R: "run_with_config H gh config ctx
        = \<lparr>outcome = Failed (failure_message e), calls = cs, telemetry_calls = []\<rparr>"
      by (simp add: run_with_config_def Let_def)
    from k have "\<exists>cs' k e'. cs = cs' @ [k] \<and> (\<forall>c \<in> set cs'. \<not> call_failed gh c)
        \<and> call_failed gh k \<and> raised_by gh k = Some e'
        \<and> Failed (failure_message e) = Failed (failure_message e')"
      by blast
    then show ?thesis
      unfolding R by simp
  next
    case (Inr cf)
    obtain c fin where cf: "cf = (c, fin)" by (cases cf)
    from sh Inr cf
    have ok: "self_healing_steps gh config (ctx_repo ctx) i ?c0 = (Inr (c, fin), cs)"
      by simp
    from self_healing_steps_frame [OF ok] have v: "violations c = violations ?c0"
      by simp
    from fails Inr have nofail: "\<forall>k \<in> set cs. \<not> call_failed gh k"
      by simp
    show ?thesis
    proof (cases "telemetryEnabled H config")
      case False
      with Some ok nofail show ?thesis
        by (simp add: run_with_config_def Let_def)
    next
      case True
      with Some ok nofail v show ?thesis
        by (cases "writeTelemetry H (issue_number i)
                     (build_payload H (ctx_repo ctx) i (map label_name (issue_labels i)) c fin)")
           (simp_all add: run_with_config_def Let_def build_payload_def)
    qed
  qed
qed

text \<open>
  An instance: the same run twice. When attaching the milestone fails, after the label
  was applied and the milestone found, the run is reported as failed with the message
  of the wrapped failure and nothing is handed to persistence. When every call succeeds,
  one payload of version 1 with both actions is.
\<close>

theorem remote_failure_skips_telemetry_witness:
  "call_failed (github_ok\<lparr>issues_update := (\<lambda>ow rp n m. Some outage)\<rparr>)
       (UpdateIssue ''acme'' ''widgets'' 42 7)
   \<and> calls (run_with_config (harness_with JNull)
        (github_ok\<lparr>issues_update := (\<lambda>ow rp n m. Some outage)\<rparr>) healing_config issue_event)
       = [AddLabels ''acme'' ''widgets'' 42 [''track:bug''], ListMilestones ''acme'' ''widgets'']
         @ [UpdateIssue ''acme'' ''widgets'' 42 7]
   \<and> telemetry_calls (run_with_config (harness_with JNull)
        (github_ok\<lparr>issues_update := (\<lambda>ow rp n m. Some outage)\<rparr>) healing_config issue_event) = []
   \<and> outcome (run_with_config (harness_with JNull)
        (github_ok\<lparr>issues_update := (\<lambda>ow rp n m. Some outage)\<rparr>) healing_config issue_event)
       = Failed (cross_mark @ '' Orchestrator error: Failed to attach milestone #7 to issue #42'')
   \<and> (\<exists>p. telemetry_calls (run_with_config (harness_with JNull) github_ok healing_config issue_event)
             = [(42, p)]
         \<and> version p = 1
         \<and> payload_actions p = [''apply-track-label:track:bug'', ''set-milestone:Bugfix Sprint'']
         \<and> (\<forall>k \<in> set (calls (run_with_config (harness_with JNull) github_ok healing_config
                               issue_event)). \<not> call_failed github_ok k))"
proof -
  let ?bad = "github_ok\<lparr>issues_update := (\<lambda>ow rp n m. Some outage)\<rparr>"
  let ?R = "run_with_config (harness_with JNull) ?bad healing_config issue_event"
  let ?S = "run_with_config (harness_with JNull) github_ok healing_config issue_event"
  let ?u = "UpdateIssue ''acme'' ''widgets'' 42 7"
  have failed: "call_failed ?bad ?u"
    by simp
  have cs: "calls ?R = [AddLabels ''acme'' ''widgets'' 42 [''track:bug''],
                        ListMilestones ''acme'' ''widgets''] @ [?u]"
    by (simp add: run_defs scenario_defs)
  from failed cs have "\<exists>k \<in> set (calls ?R). call_failed ?bad k"
    by simp
  with remote_failure_skips_telemetry [of "harness_with JNull" ?bad healing_config issue_event]
  obtain cs' k e where none: "telemetry_calls ?R = []" and k: "calls ?R = cs' @ [k]"
      and e: "raised_by ?bad k = Some e" and out: "outcome ?R = Failed (failure_message e)"
    by blast
  from k cs have "k = ?u"
    by simp
  with e have "e = Engine (githubApiError
                     (''Failed to attach milestone #'' @ show_int 7 @ '' to issue #'' @ show_int 42)
                     (Some outage) None)"
    by simp
  then have "failure_message e
      = cross_mark @ '' Orchestrator error: Failed to attach milestone #7 to issue #42''"
    by (simp add: githubApiError_def show_int_def decimal.simps digit_char_def)
  with out have bad: "outcome ?R
      = Failed (cross_mark @ '' Orchestrator error: Failed to attach milestone #7 to issue #42'')"
    by simp
  have "\<exists>p. telemetry_calls ?S = [(42, p)]
           \<and> payload_actions p = [''apply-track-label:track:bug'', ''set-milestone:Bugfix Sprint'']"
    by (simp add: run_defs scenario_defs)
  then obtain p where p: "telemetry_calls ?S = [(42, p)]"
      "payload_actions p = [''apply-track-label:track:bug'', ''set-milestone:Bugfix Sprint'']"
    by blast
  then have "(42, p) \<in> set (telemetry_calls ?S)"
    by simp
  with remote_failure_skips_telemetry [of "harness_with JNull" github_ok healing_config issue_event]
  have "(\<forall>k \<in> set (calls ?S). \<not> call_failed github_ok k) \<and> version p = 1"
    by blast
  with p have good: "\<exists>p. telemetry_calls ?S = [(42, p)] \<and> version p = 1
         \<and> payload_actions p = [''apply-track-label:track:bug'', ''set-milestone:Bugfix Sprint'']
         \<and> (\<forall>k \<in> set (calls ?S). \<not> call_failed github_ok k)"
    by blast
  from failed cs none bad good show ?thesis
    by blast
qed

text \<open>
  C1 as it is stated fails. In the run on the configuration file of scenario A,
  applying the label fails, and the run ends in the \<open>catch\<close> without a payload for the
  persistence collaborator, although telemetry is enabled in the configuration and in
  the environment.
\<close>

theorem telemetry_after_failure_counterexample:
  "call_failed (github_ok\<lparr>addLabels := (\<lambda>ow rp n ls. Some (Raw outage))\<rparr>)
       (AddLabels ''acme'' ''widgets'' 42 [''track:bug''])
   \<and> calls (run (harness_with scenario_A_snake_doc)
        (github_ok\<lparr>addLabels := (\<lambda>ow rp n ls. Some (Raw outage))\<rparr>) issue_event)
       = [AddLabels ''acme'' ''widgets'' 42 [''track:bug'']]
   \<and> telemetryEnabled (harness_with scenario_A_snake_doc)
        (loadConfig (files (harness_with scenario_A_snake_doc)) ''.github/orchestrator.yml'')
   \<and> telemetry_calls (run (harness_with scenario_A_snake_doc)
        (github_ok\<lparr>addLabels := (\<lambda>ow rp n ls. Some (Raw outage))\<rparr>) issue_event) = []
   \<and> outcome (run (harness_with scenario_A_snake_doc)
        (github_ok\<lparr>addLabels := (\<lambda>ow rp n ls. Some (Raw outage))\<rparr>) issue_event)
       = Failed (cross_mark @ '' Orchestrator error: 503 Service Unavailable'')"
  unfolding run_harness_with scenario_A_snake_config
  by (simp add: run_defs scenario_defs)

section \<open>Scenario A, run on the code\<close>

text \<open>
  C2. The run of scenario A, with every remote call succeeding. With the keys as the
  scenario writes them (\<open>milestoneRules\<close>, \<open>selfHealing\<close>, \<open>fixMissingTrack\<close>,
  \<open>fixMissingMilestone\<close>) the loader finds no \<open>self_healing\<close> section: the track is
  \<open>bug\<close>, but no remote call is made, no action is recorded and the milestone stays
  absent. With the keys the loader reads, the label is applied, and the milestone is
  still not set, because the resolver reads \<open>config.milestones\<close>, which the loader never
  writes.
\<close>

theorem scenario_A_run:
  "outcome (run (harness_with scenario_A_doc) github_ok issue_event)
     = Completed \<lparr>res_track = Some ''bug'', res_actions = [], res_milestone = None,
                  res_telemetryFile = Some ''telemetry/42.json''\<rparr>
   \<and> calls (run (harness_with scenario_A_doc) github_ok issue_event) = []
   \<and> outcome (run (harness_with scenario_A_snake_doc) github_ok issue_event)
     = Completed \<lparr>res_track = Some ''bug'', res_actions = [''apply-track-label:track:bug''],
                  res_milestone = None, res_telemetryFile = Some ''telemetry/42.json''\<rparr>
   \<and> calls (run (harness_with scenario_A_snake_doc) github_ok issue_event)
     = [AddLabels ''acme'' ''widgets'' 42 [''track:bug'']]"
  unfolding run_harness_with scenario_A_config scenario_A_snake_config
  by (simp add: run_defs scenario_defs)

end
